theory Spec2Isabelle
  imports Main "HOL-Library.AList"
begin

section \<open>Python library functions used by \<^verbatim>\<open>moddepth_analysis.py\<close>\<close>

text \<open>
  The script is glue code around the Python standard library (\<^verbatim>\<open>os.path\<close>, \<^verbatim>\<open>str\<close>,
  \<^verbatim>\<open>str.format\<close>), \<^verbatim>\<open>scipy.io.loadmat\<close>, \<^verbatim>\<open>numpy.random.permutation\<close> and the
  estimator of the \<^verbatim>\<open>anlffr\<close> package. The standard-library functions are modelled here
  after their POSIX implementations: \<^verbatim>\<open>str(int)\<close> as \<open>str_int\<close>, \<^verbatim>\<open>os.path.join\<close> (two
  arguments) as \<open>join\<close>, \<^verbatim>\<open>str.rfind\<close> for a single character as \<open>rfind\<close> (result
  \<open>-1\<close> when the character is absent) and \<^verbatim>\<open>os.path.splitext\<close> as \<open>splitext\<close>: the
  extension starts at the last dot of the last path component, leading dots of that
  component do not count.
\<close>

definition digit_char :: "nat \<Rightarrow> char" where
  "digit_char d = ''0123456789'' ! d"

fun str_nat :: "nat \<Rightarrow> string" where
  "str_nat n = (if n < 10 then [digit_char n] else str_nat (n div 10) @ [digit_char (n mod 10)])"

declare str_nat.simps [simp del]

definition str_int :: "int \<Rightarrow> string" where
  "str_int i = (if i < 0 then CHR ''-'' # str_nat (nat (- i)) else str_nat (nat i))"

definition join :: "string \<Rightarrow> string \<Rightarrow> string" where
  "join a b =
     (if b \<noteq> [] \<and> hd b = CHR ''/'' then b
      else if a = [] \<or> last a = CHR ''/'' then a @ b
      else a @ ''/'' @ b)"

fun rfind :: "char \<Rightarrow> string \<Rightarrow> int" where
  "rfind c [] = - 1"
| "rfind c (x # xs) =
     (let r = rfind c xs in if 0 \<le> r then r + 1 else if x = c then 0 else - 1)"

definition splitext :: "string \<Rightarrow> string \<times> string" where
  "splitext p =
     (let sepIndex = rfind (CHR ''/'') p;
          dotIndex = rfind (CHR ''.'') p
      in if sepIndex < dotIndex \<and>
            list_ex (\<lambda>ch. ch \<noteq> CHR ''.'')
              (take (nat (dotIndex - (sepIndex + 1))) (drop (nat (sepIndex + 1)) p))
         then (take (nat dotIndex) p, drop (nat dotIndex) p)
         else (p, []))"

section \<open>The output filename resolver\<close>

text \<open>
  The filesystem state is the finite table of the paths that exist, each with the chunks
  written to it so far; \<^verbatim>\<open>os.path.exists\<close> is a lookup in that table. \<open>next_name\<close> is
  the right-hand side of the assignment in the body of the \<^verbatim>\<open>while\<close> loop of
  \<^verbatim>\<open>_check_filename\<close>, \<open>check_loop\<close> is the loop itself (with the two loop variables as
  arguments) and \<open>check_filename\<close> the whole function.
\<close>

type_synonym filesystem = "(string \<times> string list) list"

definition path_exists :: "filesystem \<Rightarrow> string \<Rightarrow> bool" where
  "path_exists fs p = (map_of fs p \<noteq> None)"

definition next_name :: "string \<Rightarrow> int \<Rightarrow> string" where
  "next_name fullFilename counter =
     fst (splitext fullFilename) @ ''_'' @ str_int counter @ ''.csv''"

function check_loop :: "filesystem \<Rightarrow> int \<Rightarrow> string \<Rightarrow> string" where
  "check_loop fs counter fullFilename =
     (if path_exists fs fullFilename
      then check_loop fs (counter + 1) (next_name fullFilename (counter + 1))
      else fullFilename)"
  by pat_completeness auto

definition check_filename :: "filesystem \<Rightarrow> string \<Rightarrow> string \<Rightarrow> string" where
  "check_filename fs inSaveName inSaveDir = check_loop fs 0 (join inSaveDir inSaveName)"

text \<open>
  A candidate is settled when its extension has at most four characters after the dot;
  every candidate that the loop builds is. The termination of the loop is proved from it
  further down.
\<close>

definition settled :: "string \<Rightarrow> bool" where
  "settled p = (length p \<le> length (fst (splitext p)) + 5)"


section \<open>The per-subject, per-condition driver\<close>

subsection \<open>Data\<close>

text \<open>
  The \<^verbatim>\<open>try\<close> statement of the script has two handlers, \<^verbatim>\<open>except IOError\<close> and
  \<^verbatim>\<open>except AssertionError\<close>; \<open>OtherError\<close> stands for an exception of any other class
  (\<^verbatim>\<open>KeyError\<close>, \<^verbatim>\<open>IndexError\<close>, \<^verbatim>\<open>NameError\<close>, \<^verbatim>\<open>ValueError\<close>, ...), which no handler
  of the script matches.
\<close>

datatype exn = IOError | AssertionError | OtherError

text \<open>The keys of the dictionary \<^verbatim>\<open>loadName\<close>.\<close>

datatype polarity = positive | negative

text \<open>
  What \<^verbatim>\<open>io.loadmat\<close> returns, as far as the script reads it: the entries under the keys
  \<^verbatim>\<open>'data'\<close> and \<^verbatim>\<open>'sampleRate'\<close> (\<open>None\<close>: the key is absent and the lookup raises
  \<^verbatim>\<open>KeyError\<close>). The trial matrix is kept as the list of its slices along axis 1 (one
  element per trial), so \<^verbatim>\<open>mat.shape[1]\<close> is the length of that list and
  \<^verbatim>\<open>mat[:, useTrials, :]\<close> selects elements of it.
\<close>

record 'a wholeMat =
  data :: "'a list option"
  sampleRate :: "int option"

text \<open>
  The dictionary \<^verbatim>\<open>params\<close> built by \<^verbatim>\<open>spectral.generate_parameters\<close>, as far as the
  script reads it: \<^verbatim>\<open>params['Fs']\<close>, \<^verbatim>\<open>params['f']\<close> (field \<open>f_axis\<close>),
  \<^verbatim>\<open>params['nDraws']\<close> and \<^verbatim>\<open>params['nPerDraw']\<close>. The constructor is not part of the
  script; the record is a parameter of the model.
\<close>

record 'v params =
  Fs :: int
  f_axis :: "'v list"
  nDraws :: int
  nPerDraw :: int

text \<open>
  The nested dictionary returned by \<^verbatim>\<open>bootstrap.bootfunc\<close>:
  \<^verbatim>\<open>result[variant][statistic]\<close> is a sequence indexed by frequency bin.
\<close>

type_synonym 'v result = "string \<Rightarrow> (string \<Rightarrow> 'v list option) option"

text \<open>
  Everything the script takes from outside: the command line (\<open>dataDir\<close>, \<open>saveDir\<close>,
  \<open>minTrials\<close>), the order in which \<^verbatim>\<open>for l in loadName\<close> visits the two keys (insertion
  order from Python 3.7 on, hash order before), the loader, the random permutation and
  the estimator (both thread the state \<open>'g\<close> of the global random generator; the estimator
  receives the mutable dictionary \<^verbatim>\<open>params\<close> and hands it back), the failures of the
  operations on the output file (\<open>None\<close>: the operation succeeds), and the text that
  \<^verbatim>\<open>str.format\<close> produces for a floating-point value and for an index array.
\<close>

record ('a, 'v, 'g) env =
  dataDir :: string
  saveDir :: string
  minTrials :: int
  dict_order :: "polarity list"
  loadmat :: "string \<Rightarrow> exn + 'a wholeMat"
  permutation :: "'g \<Rightarrow> nat \<Rightarrow> nat list \<times> 'g"
  bootfunc :: "'g \<Rightarrow> 'a list list \<Rightarrow> 'v params \<Rightarrow> (exn + 'v result) \<times> 'v params \<times> 'g"
  open_error :: "string \<Rightarrow> exn option"
  write_error :: "string \<Rightarrow> string list \<Rightarrow> exn option"
  close_error :: "string \<Rightarrow> exn option"
  format_value :: "'v \<Rightarrow> string"
  format_array :: "nat list \<Rightarrow> string"

text \<open>
  The state the script changes: the filesystem, standard output (one entry per call of
  \<^verbatim>\<open>print\<close>, without the final newline that \<^verbatim>\<open>print\<close> adds), the dictionary
  \<^verbatim>\<open>params\<close>, the random generator, the module-level variables \<^verbatim>\<open>l\<close>, \<^verbatim>\<open>mat\<close> and
  \<^verbatim>\<open>outputFile\<close> (\<open>None\<close>: not yet bound; a file object is its path and whether it has
  been closed), which keep their values from one iteration to the next, and the list of
  the calls of the estimator made so far, each with its arguments.
\<close>

record ('a, 'v, 'g) world =
  files :: filesystem
  stdout :: "string list"
  params :: "'v params"
  rng :: 'g
  var_l :: "polarity option"
  var_mat :: "'a list option"
  outputFile :: "(string \<times> bool) option"
  calls :: "('a list list \<times> 'v params) list"

text \<open>
  How one iteration of the loop over the conditions ends: normally, by \<^verbatim>\<open>continue\<close> in
  a handler, or with an exception nobody catches, which ends the process.
\<close>

datatype outcome = Done | Skipped | Crashed exn

subsection \<open>Names and messages\<close>

definition polarity_str :: "polarity \<Rightarrow> string" where
  "polarity_str l = (case l of positive \<Rightarrow> ''positive'' | negative \<Rightarrow> ''negative'')"

definition loadName :: "string \<Rightarrow> int \<Rightarrow> polarity \<Rightarrow> string" where
  "loadName s c l =
     (case l of
        positive \<Rightarrow> s @ ''_S_'' @ str_int c @ ''.mat''
      | negative \<Rightarrow> s @ ''_S_'' @ str_int (c + 6) @ ''.mat'')"

definition saveName :: "string \<Rightarrow> int \<Rightarrow> string" where
  "saveName s c = s @ ''_condition_'' @ str_int c @ ''.csv''"

definition condition_message :: "int \<Rightarrow> string" where
  "condition_message c = ''condition: '' @ str_int c"

definition using_message :: "string \<Rightarrow> string \<Rightarrow> string" where
  "using_message l useTrials = ''using '' @ l @ '' polarity trials:\<newline> '' @ useTrials"

definition ioerror_message :: "string \<Rightarrow> int \<Rightarrow> string" where
  "ioerror_message name c =
     ''\<newline>Cannot find file: '' @ name @ '', skipping,'' @ ''condition '' @ str_int c @ '' \<newline>''"

definition assertion_message :: "nat \<Rightarrow> string \<Rightarrow> int \<Rightarrow> string" where
  "assertion_message n name c =
     ''\<newline>Only '' @ str_int (int n) @ '' trials detected in '' @ name @
     '', skipping condition '' @ str_int c @ ''...\<newline>''"

fun join_commas :: "string list \<Rightarrow> string" where
  "join_commas [] = []"
| "join_commas [x] = x"
| "join_commas (x # y # ys) = x @ '','' @ join_commas (y # ys)"

text \<open>\<^verbatim>\<open>printStr.format\<close> applied to its thirteen arguments.\<close>

definition printStr_format :: "string list \<Rightarrow> string" where
  "printStr_format args = join_commas args @ ''\<newline>''"

definition column_names :: "string list" where
  "column_names =
     [''Subject Name'', ''Condition'', ''Number of Draws'', ''Trials per Draw'', ''Frequency'',
      ''PLV**2: bootstrapped mean'', ''PLV**2: bootstrapped variance'',
      ''Spectrum: bootstrapped mean'', ''Spectrum: bootstrapped variance'',
      ''Noise floor PLV**2: bootstrapped mean'', ''Noise floor PLV**2: bootstrapped variance'',
      ''Noise floor Spectrum: bootstrapped mean'',
      ''Noise floor Spectrum: bootstrapped variance'']"

text \<open>
  The eight entries of \<^verbatim>\<open>result\<close> that a data row reads, in the order of the arguments
  of \<^verbatim>\<open>printStr.format\<close>.
\<close>

definition stat_keys :: "(string \<times> string) list" where
  "stat_keys =
     [(''mtcpcaPLV_normalPhase'', ''bootMean''),
      (''mtcpcaPLV_normalPhase'', ''bootVariance''),
      (''mtcpcaSpectrum_normalPhase'', ''bootMean''),
      (''mtcpcaSpectrum_normalPhase'', ''bootVariance''),
      (''mtcpcaPLV_phaseFlipHalfTrials'', ''bootMean''),
      (''mtcpcaPLV_phaseFlipHalfTrials'', ''bootVariance''),
      (''mtcpcaSpectrum_phaseFlipHalfTrials'', ''bootMean''),
      (''mtcpcaSpectrum_phaseFlipHalfTrials'', ''bootVariance'')]"

subsection \<open>Operations\<close>

definition py_print :: "string \<Rightarrow> ('a, 'v, 'g) world \<Rightarrow> ('a, 'v, 'g) world" where
  "py_print line w = w\<lparr>stdout := stdout w @ [line]\<rparr>"

text \<open>\<^verbatim>\<open>xs[0:m]\<close>: a negative bound counts from the end.\<close>

definition slice_to :: "'b list \<Rightarrow> int \<Rightarrow> 'b list" where
  "slice_to xs m = (if 0 \<le> m then take (nat m) xs else take (nat (int (length xs) + m)) xs)"

text \<open>\<^verbatim>\<open>mat[:, useTrials, :]\<close>: an index out of range raises \<^verbatim>\<open>IndexError\<close>.\<close>

definition select_trials :: "'a list \<Rightarrow> nat list \<Rightarrow> exn + 'a list" where
  "select_trials mat useTrials =
     (if list_all (\<lambda>i. i < length mat) useTrials then Inr (map (\<lambda>i. mat ! i) useTrials)
      else Inl OtherError)"

text \<open>\<^verbatim>\<open>result[variant][statistic][plvF]\<close>.\<close>

definition stat :: "'v result \<Rightarrow> nat \<Rightarrow> string \<times> string \<Rightarrow> exn + 'v" where
  "stat result plvF key =
     (case result (fst key) of
        None \<Rightarrow> Inl OtherError
      | Some d \<Rightarrow>
          (case d (snd key) of
             None \<Rightarrow> Inl OtherError
           | Some xs \<Rightarrow> if plvF < length xs then Inr (xs ! plvF) else Inl OtherError))"

text \<open>\<^verbatim>\<open>open(outputFilename, 'w')\<close> creates the file, or empties it, and binds \<^verbatim>\<open>outputFile\<close>.\<close>

definition file_open ::
  "('a, 'v, 'g) env \<Rightarrow> string \<Rightarrow> ('a, 'v, 'g) world \<Rightarrow> exn option \<times> ('a, 'v, 'g) world" where
  "file_open env path w =
     (case open_error env path of
        Some e \<Rightarrow> (Some e, w)
      | None \<Rightarrow> (None, w\<lparr>files := AList.update path [] (files w),
                          outputFile := Some (path, False)\<rparr>))"

definition file_content :: "filesystem \<Rightarrow> string \<Rightarrow> string list" where
  "file_content fs path = (case map_of fs path of None \<Rightarrow> [] | Some chunks \<Rightarrow> chunks)"

definition file_write ::
  "('a, 'v, 'g) env \<Rightarrow> string \<Rightarrow> string \<Rightarrow> ('a, 'v, 'g) world \<Rightarrow> exn option \<times> ('a, 'v, 'g) world"
  where
  "file_write env path chunk w =
     (case write_error env path (file_content (files w) path) of
        Some e \<Rightarrow> (Some e, w)
      | None \<Rightarrow>
          (None, w\<lparr>files := AList.update path (file_content (files w) path @ [chunk]) (files w)\<rparr>))"

definition file_close ::
  "('a, 'v, 'g) env \<Rightarrow> string \<Rightarrow> ('a, 'v, 'g) world \<Rightarrow> exn option \<times> ('a, 'v, 'g) world" where
  "file_close env path w =
     (case close_error env path of
        Some e \<Rightarrow> (Some e, w)
      | None \<Rightarrow> (None, w\<lparr>outputFile := Some (path, True)\<rparr>))"

subsection \<open>The body of the \<^verbatim>\<open>try\<close> statement\<close>

text \<open>
  One round of \<^verbatim>\<open>for l in loadName\<close> (lines 92 to 107). The two \<^verbatim>\<open>assert\<close> statements
  are executed (the interpreter runs without \<^verbatim>\<open>-O\<close>).
\<close>

definition load_one ::
  "('a, 'v, 'g) env \<Rightarrow> string \<Rightarrow> int \<Rightarrow> polarity \<Rightarrow> ('a, 'v, 'g) world \<Rightarrow>
     (exn + 'a list) \<times> ('a, 'v, 'g) world" where
  "load_one env s c l w =
     (let w1 = w\<lparr>var_l := Some l\<rparr> in
      case loadmat env (join (dataDir env) (loadName s c l)) of
        Inl e \<Rightarrow> (Inl e, w1)
      | Inr wholeMat \<Rightarrow>
          (case data wholeMat of
             None \<Rightarrow> (Inl OtherError, w1)
           | Some mat \<Rightarrow>
               (let w2 = w1\<lparr>var_mat := Some mat\<rparr> in
                case sampleRate wholeMat of
                  None \<Rightarrow> (Inl OtherError, w2)
                | Some sampleRateFromFile \<Rightarrow>
                    if \<not> minTrials env < int (length mat) then (Inl AssertionError, w2)
                    else if sampleRateFromFile \<noteq> Fs (params w2) then (Inl AssertionError, w2)
                    else
                      (let permutedTrials = fst (permutation env (rng w2) (length mat));
                           useTrials = slice_to permutedTrials (minTrials env);
                           w3 = py_print (using_message (polarity_str l) (format_array env useTrials))
                                  (w2\<lparr>rng := snd (permutation env (rng w2) (length mat))\<rparr>)
                       in case select_trials mat useTrials of
                            Inl e \<Rightarrow> (Inl e, w3)
                          | Inr sub \<Rightarrow> (Inr sub, w3)))))"

text \<open>The loop \<^verbatim>\<open>for l in loadName\<close>, appending to \<^verbatim>\<open>combinedData\<close>.\<close>

fun load_all ::
  "('a, 'v, 'g) env \<Rightarrow> string \<Rightarrow> int \<Rightarrow> polarity list \<Rightarrow> 'a list list \<Rightarrow> ('a, 'v, 'g) world \<Rightarrow>
     (exn + 'a list list) \<times> ('a, 'v, 'g) world" where
  "load_all env s c [] combinedData w = (Inr combinedData, w)"
| "load_all env s c (l # ls) combinedData w =
     (case load_one env s c l w of
        (Inl e, w') \<Rightarrow> (Inl e, w')
      | (Inr sub, w') \<Rightarrow> load_all env s c ls (combinedData @ [sub]) w')"

text \<open>The text of one data row (lines 140 to 177).\<close>

definition toWrite ::
  "('a, 'v, 'g) env \<Rightarrow> string \<Rightarrow> int \<Rightarrow> 'v params \<Rightarrow> 'v result \<Rightarrow> nat \<Rightarrow> exn + string" where
  "toWrite env s c p result plvF =
     (if \<not> plvF < length (f_axis p) then Inl OtherError
      else if list_ex isl (map (stat result plvF) stat_keys) then Inl OtherError
      else Inr (printStr_format
                  ([s, str_int c, str_int (nDraws p), str_int (nPerDraw p),
                    format_value env (f_axis p ! plvF)] @
                   map (\<lambda>key. format_value env (projr (stat result plvF key))) stat_keys)))"

text \<open>The loop \<^verbatim>\<open>for plvF in range(len(params['f']))\<close>.\<close>

fun write_rows ::
  "('a, 'v, 'g) env \<Rightarrow> string \<Rightarrow> int \<Rightarrow> string \<Rightarrow> 'v result \<Rightarrow> nat list \<Rightarrow> ('a, 'v, 'g) world \<Rightarrow>
     exn option \<times> ('a, 'v, 'g) world" where
  "write_rows env s c path result [] w = (None, w)"
| "write_rows env s c path result (plvF # rest) w =
     (case toWrite env s c (params w) result plvF of
        Inl e \<Rightarrow> (Some e, w)
      | Inr line \<Rightarrow>
          (case file_write env path line w of
             (Some e, w') \<Rightarrow> (Some e, w')
           | (None, w') \<Rightarrow> write_rows env s c path result rest w'))"

text \<open>
  The call of the estimator (lines 110 to 112): it may change \<^verbatim>\<open>params\<close> and the random
  generator, and the call is recorded with the arguments it received.
\<close>

definition call_bootfunc ::
  "('a, 'v, 'g) env \<Rightarrow> 'a list list \<Rightarrow> ('a, 'v, 'g) world \<Rightarrow>
     (exn + 'v result) \<times> ('a, 'v, 'g) world" where
  "call_bootfunc env combinedData w =
     (case bootfunc env (rng w) combinedData (params w) of
        (r, p', g') \<Rightarrow>
          (r, w\<lparr>params := p', rng := g', calls := calls w @ [(combinedData, params w)]\<rparr>))"

text \<open>Lines 87 to 181; the result is the exception that leaves the block, if any.\<close>

definition try_block ::
  "('a, 'v, 'g) env \<Rightarrow> string \<Rightarrow> int \<Rightarrow> string \<Rightarrow> ('a, 'v, 'g) world \<Rightarrow>
     exn option \<times> ('a, 'v, 'g) world" where
  "try_block env s c path w =
     (case load_all env s c (dict_order env) [] w of
        (Inl e, w1) \<Rightarrow> (Some e, w1)
      | (Inr combinedData, w1) \<Rightarrow>
          (case call_bootfunc env combinedData w1 of
             (Inl e, w2) \<Rightarrow> (Some e, w2)
           | (Inr result, w2) \<Rightarrow>
               (case file_write env path (printStr_format column_names) w2 of
                  (Some e, w3) \<Rightarrow> (Some e, w3)
                | (None, w3) \<Rightarrow>
                    (case write_rows env s c path result [0..<length (f_axis (params w3))] w3 of
                       (Some e, w4) \<Rightarrow> (Some e, w4)
                     | (None, w4) \<Rightarrow> file_close env path w4))))"

subsection \<open>One condition, and the two loops\<close>

text \<open>Lines 76 to 84: the message, the name of the output file, and opening it.\<close>

definition outputFilename :: "('a, 'v, 'g) env \<Rightarrow> string \<Rightarrow> int \<Rightarrow> ('a, 'v, 'g) world \<Rightarrow> string" where
  "outputFilename env s c w = check_filename (files w) (saveName s c) (saveDir env)"

definition open_output ::
  "('a, 'v, 'g) env \<Rightarrow> string \<Rightarrow> int \<Rightarrow> ('a, 'v, 'g) world \<Rightarrow> exn option \<times> ('a, 'v, 'g) world" where
  "open_output env s c w =
     file_open env (outputFilename env s c w) (py_print (condition_message c) w)"

text \<open>
  The two handlers (lines 183 to 193). Each formats its message from the variables
  \<^verbatim>\<open>l\<close> and \<^verbatim>\<open>mat\<close> as they are when the exception arrives; reading an unbound variable
  raises \<^verbatim>\<open>NameError\<close> inside the handler.
\<close>

definition handle ::
  "string \<Rightarrow> int \<Rightarrow> exn option \<times> ('a, 'v, 'g) world \<Rightarrow> outcome \<times> ('a, 'v, 'g) world" where
  "handle s c r =
     (case r of
        (None, w) \<Rightarrow> (Done, w)
      | (Some IOError, w) \<Rightarrow>
          (case var_l w of
             None \<Rightarrow> (Crashed OtherError, w)
           | Some l \<Rightarrow> (Skipped, py_print (ioerror_message (loadName s c l) c) w))
      | (Some AssertionError, w) \<Rightarrow>
          (case var_mat w of
             None \<Rightarrow> (Crashed OtherError, w)
           | Some mat \<Rightarrow>
               (case var_l w of
                  None \<Rightarrow> (Crashed OtherError, w)
                | Some l \<Rightarrow>
                    (Skipped, py_print (assertion_message (length mat) (loadName s c l) c) w)))
      | (Some OtherError, w) \<Rightarrow> (Crashed OtherError, w))"

text \<open>The body of \<^verbatim>\<open>for c in range(1, 4)\<close>.\<close>

definition cond_body ::
  "('a, 'v, 'g) env \<Rightarrow> string \<Rightarrow> int \<Rightarrow> ('a, 'v, 'g) world \<Rightarrow> outcome \<times> ('a, 'v, 'g) world" where
  "cond_body env s c w =
     (case open_output env s c w of
        (Some e, w1) \<Rightarrow> (Crashed e, w1)
      | (None, w1) \<Rightarrow> handle s c (try_block env s c (outputFilename env s c w) w1))"

text \<open>
  The loop over the conditions: \<open>Skipped\<close> and \<open>Done\<close> go on with the next condition, an
  uncaught exception ends the run. The result is that exception, if any.
\<close>

fun run_conditions ::
  "('a, 'v, 'g) env \<Rightarrow> string \<Rightarrow> int list \<Rightarrow> ('a, 'v, 'g) world \<Rightarrow> exn option \<times> ('a, 'v, 'g) world"
  where
  "run_conditions env s [] w = (None, w)"
| "run_conditions env s (c # cs) w =
     (case cond_body env s c w of
        (Crashed e, w') \<Rightarrow> (Some e, w')
      | (Skipped, w') \<Rightarrow> run_conditions env s cs w'
      | (Done, w') \<Rightarrow> run_conditions env s cs w')"


subsection \<open>A small concrete run\<close>

text \<open>
  A loader under which every input file holds \<open>n\<close> trials recorded at rate \<open>r\<close>, an
  estimator that returns two frequency bins with a different value for each of the eight
  statistics, and an empty output directory. The instances below are evaluated on it.
\<close>

definition ex_params :: "int params" where
  "ex_params = \<lparr>Fs = 5000, f_axis = [70, 75], nDraws = 100, nPerDraw = 2\<rparr>"

definition ex_stats :: "int list \<Rightarrow> int list \<Rightarrow> string \<Rightarrow> int list option" where
  "ex_stats bootMean bootVariance statistic =
     (if statistic = ''bootMean'' then Some bootMean
      else if statistic = ''bootVariance'' then Some bootVariance
      else None)"

definition ex_result :: "int result" where
  "ex_result variant =
     (if variant = ''mtcpcaPLV_normalPhase'' then Some (ex_stats [11, 12] [21, 22])
      else if variant = ''mtcpcaSpectrum_normalPhase'' then Some (ex_stats [31, 32] [41, 42])
      else if variant = ''mtcpcaPLV_phaseFlipHalfTrials'' then Some (ex_stats [51, 52] [61, 62])
      else if variant = ''mtcpcaSpectrum_phaseFlipHalfTrials'' then Some (ex_stats [71, 72] [81, 82])
      else None)"

definition ex_env :: "(string \<Rightarrow> exn + nat wholeMat) \<Rightarrow> (nat, int, unit) env" where
  "ex_env loader =
     \<lparr>dataDir = ''data'', saveDir = ''out'', minTrials = 2,
      dict_order = [positive, negative],
      loadmat = loader,
      permutation = (\<lambda>g n. (rev [0..<n], g)),
      bootfunc = (\<lambda>g combinedData p. (Inr ex_result, p, g)),
      open_error = (\<lambda>path. None),
      write_error = (\<lambda>path chunks. None),
      close_error = (\<lambda>path. None),
      format_value = str_int,
      format_array = (\<lambda>useTrials. join_commas (map (\<lambda>i. str_int (int i)) useTrials))\<rparr>"

definition ex_file :: "nat \<Rightarrow> int \<Rightarrow> string \<Rightarrow> exn + nat wholeMat" where
  "ex_file n r path = Inr \<lparr>data = Some [0..<n], sampleRate = Some r\<rparr>"

definition ex_world :: "(nat, int, unit) world" where
  "ex_world =
     \<lparr>files = [], stdout = [], params = ex_params, rng = (), var_l = None, var_mat = None,
      outputFile = None, calls = []\<rparr>"

text \<open>A loader that finds no file, and a disk on which every write fails.\<close>

definition ex_missing :: "string \<Rightarrow> exn + nat wholeMat" where
  "ex_missing path = Inl IOError"


text \<open>
  The same run started with \<^verbatim>\<open>minTrials\<close> given as \<open>-1\<close> on the command line; a data directory
  that holds the two files of condition 2 of subject \<^verbatim>\<open>s1\<close> and nothing else; and a loader
  that raises \<^verbatim>\<open>AssertionError\<close> itself.
\<close>

definition ex_negative :: "(nat, int, unit) env" where
  "ex_negative = (ex_env (ex_file 3 5000))\<lparr>minTrials := - 1\<rparr>"




section \<open>Termination of the resolver loop\<close>

text \<open>
  After one round the candidate ends in \<^verbatim>\<open>_<counter>.csv\<close>; from then on every round makes
  it strictly longer, and only finitely many paths exist.
\<close>

lemma rfind_lower: "- 1 \<le> rfind c xs"
  by (induction xs) (auto simp: Let_def)

lemma rfind_upper: "rfind c xs < int (length xs)"
  by (induction xs) (auto simp: Let_def)

lemma rfind_absent: "c \<notin> set xs \<Longrightarrow> rfind c xs = - 1"
  by (induction xs) (auto simp: Let_def)

lemma rfind_present: "c \<in> set xs \<Longrightarrow> 0 \<le> rfind c xs"
  by (induction xs) (auto simp: Let_def)

lemma rfind_append:
  "rfind c (xs @ ys) = (if c \<in> set ys then int (length xs) + rfind c ys else rfind c xs)"
proof (induction xs)
  case Nil
  then show ?case by (simp add: rfind_absent)
next
  case (Cons x xs)
  show ?case
  proof (cases "c \<in> set ys")
    case True
    then have "0 \<le> rfind c ys" by (rule rfind_present)
    with True Cons show ?thesis by (simp add: Let_def)
  next
    case False
    with Cons show ?thesis by (simp add: Let_def)
  qed
qed

lemma nth_in_slice:
  assumes "k \<le> i" "i < k + n" "i < length p"
  shows "p ! i \<in> set (take n (drop k p))"
proof -
  have "i - k < length (take n (drop k p))" using assms by auto
  moreover have "take n (drop k p) ! (i - k) = p ! i" using assms by simp
  ultimately show ?thesis by (metis nth_mem)
qed

lemma digit_char_set: "d < 10 \<Longrightarrow> digit_char d \<in> set ''0123456789''"
  unfolding digit_char_def by (rule nth_mem) simp

lemma str_nat_digits: "set (str_nat n) \<subseteq> set ''0123456789''"
proof (induction n rule: str_nat.induct)
  case (1 n)
  show ?case
  proof (cases "n < 10")
    case True
    then show ?thesis using digit_char_set [of n] by (subst str_nat.simps) simp
  next
    case False
    have "n mod 10 < 10" by simp
    then have "digit_char (n mod 10) \<in> set ''0123456789''" by (rule digit_char_set)
    with False 1 show ?thesis by (subst str_nat.simps) simp
  qed
qed

lemma str_nat_nonempty: "str_nat n \<noteq> []"
  by (subst str_nat.simps) simp

lemma str_int_nonempty: "str_int i \<noteq> []"
  by (simp add: str_int_def str_nat_nonempty)

lemma str_nat_chars: "c \<notin> set ''0123456789'' \<Longrightarrow> c \<notin> set (str_nat n)"
  using str_nat_digits [of n] by blast

lemma str_int_chars: "CHR ''/'' \<notin> set (str_int i) \<and> CHR ''.'' \<notin> set (str_int i)"
proof -
  have "CHR ''/'' \<notin> set (str_nat n)" and "CHR ''.'' \<notin> set (str_nat n)" for n
    by (rule str_nat_chars, simp)+
  then show ?thesis by (simp add: str_int_def)
qed

lemma splitext_suffixed:
  assumes "CHR ''/'' \<notin> set ds" "CHR ''.'' \<notin> set ds"
  shows "splitext (r @ ''_'' @ ds @ ''.csv'') = (r @ ''_'' @ ds, ''.csv'')"
proof -
  let ?p = "r @ ''_'' @ ds @ ''.csv''"
  have dot: "rfind (CHR ''.'') ?p = int (length r) + 1 + int (length ds)"
    using rfind_append [of "CHR ''.''" "r @ ''_'' @ ds" "''.csv''"] by (simp add: Let_def)
  have "rfind (CHR ''/'') ?p = rfind (CHR ''/'') r"
    using assms rfind_append [of "CHR ''/''" r "''_'' @ ds @ ''.csv''"] by simp
  then have sep: "rfind (CHR ''/'') ?p < int (length r)" "- 1 \<le> rfind (CHR ''/'') ?p"
    using rfind_upper [of "CHR ''/''" r] rfind_lower [of "CHR ''/''" r] by simp_all
  let ?k = "nat (rfind (CHR ''/'') ?p + 1)"
  let ?n = "nat (rfind (CHR ''.'') ?p - (rfind (CHR ''/'') ?p + 1))"
  have "?p ! length r \<in> set (take ?n (drop ?k ?p))"
    using sep dot by (intro nth_in_slice) auto
  moreover have "?p ! length r = CHR ''_''" by (simp add: nth_append)
  ultimately have "list_ex (\<lambda>ch. ch \<noteq> CHR ''.'') (take ?n (drop ?k ?p))"
    unfolding list_ex_iff by (intro bexI [where x = "CHR ''_''"]) auto
  moreover have "take (nat (rfind (CHR ''.'') ?p)) ?p = r @ ''_'' @ ds"
    and "drop (nat (rfind (CHR ''.'') ?p)) ?p = ''.csv''"
    using dot by (simp_all add: nat_add_distrib)
  ultimately show ?thesis
    using sep dot unfolding splitext_def Let_def by (simp del: append.simps)
qed

lemma splitext_next_name:
  "splitext (next_name p c) = (fst (splitext p) @ ''_'' @ str_int c, ''.csv'')"
  unfolding next_name_def using str_int_chars [of c] by (intro splitext_suffixed) auto

lemma path_exists_length:
  "path_exists fs p \<Longrightarrow> length p \<le> sum_list (map (length \<circ> fst) fs)"
proof -
  assume "path_exists fs p"
  then have "p \<in> fst ` set fs" by (auto simp: path_exists_def map_of_eq_None_iff)
  then have "length p \<in> set (map (length \<circ> fst) fs)" by auto
  then show ?thesis by (rule member_le_sum_list) simp
qed

lemma settled_next_name: "settled (next_name p c)"
  by (simp add: settled_def splitext_next_name) (simp add: next_name_def)

lemma next_name_longer: "settled p \<Longrightarrow> length p < length (next_name p c)"
  using str_int_nonempty [of c] by (cases "str_int c") (auto simp: settled_def next_name_def)

termination check_loop
proof (relation "measures [\<lambda>(fs, c, p). if settled p then 0 else 1,
                           \<lambda>(fs, c, p). Suc (sum_list (map (length \<circ> fst) fs)) - length p]")
  show "wf (measures [\<lambda>(fs, c, p). if settled p then 0 else 1,
                      \<lambda>(fs, c, p). Suc (sum_list (map (length \<circ> fst) fs)) - length p])"
    by simp
next
  fix fs :: filesystem and counter :: int and fullFilename :: string
  assume ex: "path_exists fs fullFilename"
  show "((fs, counter + 1, next_name fullFilename (counter + 1)), (fs, counter, fullFilename))
      \<in> measures [\<lambda>(fs, c, p). if settled p then 0 else 1,
                   \<lambda>(fs, c, p). Suc (sum_list (map (length \<circ> fst) fs)) - length p]"
    using settled_next_name [of fullFilename "counter + 1"]
      next_name_longer [of fullFilename "counter + 1"] path_exists_length [OF ex]
    by (cases "settled fullFilename") auto
qed

declare check_loop.simps [simp del]

section \<open>Properties of the filename resolver\<close>

lemma check_loop_free: "\<not> path_exists fs p \<Longrightarrow> check_loop fs c p = p"
  by (subst check_loop.simps) simp

lemma check_loop_step:
  "path_exists fs p \<Longrightarrow> check_loop fs c p = check_loop fs (c + 1) (next_name p (c + 1))"
  by (subst check_loop.simps) simp


lemma check_loop_csv:
  "\<exists>r. p = r @ ''.csv'' \<Longrightarrow> \<exists>r. check_loop fs c p = r @ ''.csv''"
proof (induction fs c p rule: check_loop.induct)
  case (1 fs counter fullFilename)
  show ?case
  proof (cases "path_exists fs fullFilename")
    case True
    have "\<exists>r. next_name fullFilename (counter + 1) = r @ ''.csv''"
      unfolding next_name_def by (metis append.assoc)
    with True 1 show ?thesis by (simp add: check_loop_step)
  next
    case False
    with 1 show ?thesis by (simp add: check_loop_free)
  qed
qed

text \<open>
  Claim C1. The resolver returns the joined name unchanged when it is free, and
  \<^verbatim>\<open>x_1.csv\<close> when only \<^verbatim>\<open>x.csv\<close> exists. The claim continues with \<^verbatim>\<open>x_2.csv\<close> when
  \<^verbatim>\<open>x_1.csv\<close> exists too; the loop, however, splits the extension off the name of the
  previous round, not off the requested name, so the suffixes pile up: with
  \<^verbatim>\<open>out/x.csv\<close> and \<^verbatim>\<open>out/x_1.csv\<close> present the result is \<^verbatim>\<open>out/x_1_2.csv\<close>, although
  \<^verbatim>\<open>out/x_2.csv\<close> is free.
\<close>

theorem check_filename_cumulative_suffix:
  "check_filename [(''out/x.csv'', []), (''out/x_1.csv'', [])] ''x.csv'' ''out'' = ''out/x_1_2.csv''
   \<and> ''out/x_1_2.csv'' \<noteq> ''out/x_2.csv''
   \<and> \<not> path_exists [(''out/x.csv'', []), (''out/x_1.csv'', [])] ''out/x_2.csv''"
  by code_simp

text \<open>
  Claim C10. When the requested name is taken, the name that the resolver returns ends in
  \<^verbatim>\<open>.csv\<close> whatever the extension of the requested name was, and it is the requested name
  with its extension replaced by \<^verbatim>\<open>_1.csv\<close> when that name is free (\<^verbatim>\<open>x.txt\<close> gives
  \<^verbatim>\<open>x_1.csv\<close>).
\<close>

theorem collision_suffix_ends_in_csv:
  assumes "path_exists fs (join inSaveDir inSaveName)"
  shows "(\<exists>r. check_filename fs inSaveName inSaveDir = r @ ''.csv'') \<and>
         (\<not> path_exists fs (fst (splitext (join inSaveDir inSaveName)) @ ''_1.csv'') \<longrightarrow>
            check_filename fs inSaveName inSaveDir =
              fst (splitext (join inSaveDir inSaveName)) @ ''_1.csv'')"
proof -
  let ?p = "join inSaveDir inSaveName"
  have one: "str_int 1 = ''1''" by code_simp
  have nn: "next_name ?p 1 = fst (splitext ?p) @ ''_1.csv''"
    by (simp add: next_name_def one)
  have step: "check_filename fs inSaveName inSaveDir = check_loop fs 1 (next_name ?p 1)"
    unfolding check_filename_def using check_loop_step [OF assms, of 0] by simp
  have "\<exists>r. check_loop fs 1 (next_name ?p 1) = r @ ''.csv''"
    by (rule check_loop_csv) (simp add: nn)
  moreover have "\<not> path_exists fs (next_name ?p 1) \<Longrightarrow>
      check_loop fs 1 (next_name ?p 1) = next_name ?p 1"
    by (rule check_loop_free)
  ultimately show ?thesis by (simp add: step nn)
qed

theorem collision_suffix_ends_in_csv_witness:
  "path_exists [(''out/x.txt'', [])] (join ''out'' ''x.txt'') \<and>
   check_filename [(''out/x.txt'', [])] ''x.txt'' ''out'' = ''out/x_1.csv''"
proof -
  have h: "path_exists [(''out/x.txt'', [])] (join ''out'' ''x.txt'')" by code_simp
  have e: "fst (splitext (join ''out'' ''x.txt'')) @ ''_1.csv'' = ''out/x_1.csv''" by code_simp
  have n: "\<not> path_exists [(''out/x.txt'', [])] ''out/x_1.csv''" by code_simp
  from collision_suffix_ends_in_csv [OF h] e n h show ?thesis by simp
qed

section \<open>Properties of the driver\<close>

subsection \<open>What each step leaves unchanged\<close>

lemma py_print_fields [simp]:
  "files (py_print m w) = files w"
  "stdout (py_print m w) = stdout w @ [m]"
  "params (py_print m w) = params w"
  "rng (py_print m w) = rng w"
  "var_l (py_print m w) = var_l w"
  "var_mat (py_print m w) = var_mat w"
  "outputFile (py_print m w) = outputFile w"
  "calls (py_print m w) = calls w"
  by (simp_all add: py_print_def)

lemma load_one_frame:
  assumes "load_one env s c l w = (r, w')"
  shows "files w' = files w \<and> params w' = params w \<and> outputFile w' = outputFile w \<and>
         calls w' = calls w \<and> var_l w' = Some l"
  using assms unfolding load_one_def Let_def
  by (auto split: sum.splits option.splits if_splits)

lemma load_all_frame:
  "load_all env s c ls acc w = (r, w') \<Longrightarrow>
     files w' = files w \<and> params w' = params w \<and> outputFile w' = outputFile w \<and>
     calls w' = calls w"
proof (induction ls arbitrary: acc w)
  case Nil
  then show ?case by simp
next
  case (Cons l ls)
  obtain r1 w1 where one: "load_one env s c l w = (r1, w1)" by (cases "load_one env s c l w")
  note fr = load_one_frame [OF one]
  show ?case
  proof (cases r1)
    case (Inl e)
    with Cons.prems one fr show ?thesis by simp
  next
    case (Inr sub)
    with Cons.prems one have "load_all env s c ls (acc @ [sub]) w1 = (r, w')" by simp
    from Cons.IH [OF this] fr show ?thesis by simp
  qed
qed

lemma load_all_append:
  "load_all env s c (pre @ rest) acc w =
     (case load_all env s c pre acc w of
        (Inl e, w') \<Rightarrow> (Inl e, w')
      | (Inr acc', w') \<Rightarrow> load_all env s c rest acc' w')"
proof (induction pre arbitrary: acc w)
  case Nil
  then show ?case by simp
next
  case (Cons l pre)
  then show ?case by (simp split: prod.splits sum.splits)
qed

lemma load_one_assertion:
  assumes "loadmat env (join (dataDir env) (loadName s c l)) = Inr wholeMat"
    and "data wholeMat = Some mat" and "sampleRate wholeMat = Some r"
    and "\<not> minTrials env < int (length mat) \<or> r \<noteq> Fs (params w)"
  shows "load_one env s c l w = (Inl AssertionError, w\<lparr>var_l := Some l, var_mat := Some mat\<rparr>)"
  using assms unfolding load_one_def Let_def by auto

lemma try_block_load_failure:
  assumes "dict_order env = pre @ l # post"
    and "load_all env s c pre [] w1 = (Inr combinedData, w2)"
    and "load_one env s c l w2 = (Inl e, w3)"
  shows "try_block env s c path w1 = (Some e, w3)"
  using assms unfolding try_block_def by (simp add: load_all_append)

lemma cond_body_assertion:
  assumes "open_output env s c w = (None, w1)"
    and "dict_order env = pre @ l # post"
    and "load_all env s c pre [] w1 = (Inr combinedData, w2)"
    and "loadmat env (join (dataDir env) (loadName s c l)) = Inr wholeMat"
    and "data wholeMat = Some mat" and "sampleRate wholeMat = Some r"
    and "\<not> minTrials env < int (length mat) \<or> r \<noteq> Fs (params w2)"
  shows "cond_body env s c w =
           (Skipped, py_print (assertion_message (length mat) (loadName s c l) c)
                       (w2\<lparr>var_l := Some l, var_mat := Some mat\<rparr>))"
proof -
  have "load_one env s c l w2 = (Inl AssertionError, w2\<lparr>var_l := Some l, var_mat := Some mat\<rparr>)"
    using assms(4-7) by (rule load_one_assertion)
  from try_block_load_failure [OF assms(2,3) this]
  show ?thesis using assms(1) by (simp add: cond_body_def handle_def)
qed

lemma run_conditions_skipped:
  "cond_body env s c w = (Skipped, w') \<Longrightarrow>
     run_conditions env s (c # cs) w = run_conditions env s cs w'"
  by simp

lemma open_output_frame:
  assumes "open_output env s c w = (None, w1)"
  shows "files w1 = AList.update (outputFilename env s c w) [] (files w)"
    and "outputFile w1 = Some (outputFilename env s c w, False)"
    and "params w1 = params w" and "calls w1 = calls w" and "rng w1 = rng w"
    and "stdout w1 = stdout w @ [condition_message c]"
    and "var_l w1 = var_l w" and "var_mat w1 = var_mat w"
  using assms unfolding open_output_def file_open_def
  by (auto split: option.splits)

subsection \<open>The two assertions\<close>

text \<open>
  Claim C2. A file that is loaded with exactly \<open>minTrials\<close> trials fails the assertion
  \<^verbatim>\<open>mat.shape[1] > minTrials\<close> (the comparison is strict): the handler prints its message,
  the condition is skipped and the loop goes on with the next condition. The file may be
  any of the files that the loop over the polarities reaches: the ones before it, \<open>pre\<close>,
  have been loaded without an exception.
\<close>

theorem exact_minTrials_is_insufficient:
  assumes "open_output env s c w = (None, w1)"
    and "dict_order env = pre @ l # post"
    and "load_all env s c pre [] w1 = (Inr combinedData, w2)"
    and "loadmat env (join (dataDir env) (loadName s c l)) = Inr wholeMat"
    and "data wholeMat = Some mat" and "sampleRate wholeMat = Some r"
    and "int (length mat) = minTrials env"
  shows "fst (load_one env s c l w2) = Inl AssertionError \<and>
         cond_body env s c w =
           (Skipped, py_print (assertion_message (length mat) (loadName s c l) c)
                       (w2\<lparr>var_l := Some l, var_mat := Some mat\<rparr>)) \<and>
         run_conditions env s (c # cs) w =
           run_conditions env s cs
             (py_print (assertion_message (length mat) (loadName s c l) c)
                (w2\<lparr>var_l := Some l, var_mat := Some mat\<rparr>))"
proof -
  have fails: "\<not> minTrials env < int (length mat) \<or> r \<noteq> Fs (params w2)"
    using assms(7) by simp
  have "load_one env s c l w2 = (Inl AssertionError, w2\<lparr>var_l := Some l, var_mat := Some mat\<rparr>)"
    using assms(4-6) fails by (rule load_one_assertion)
  moreover note body = cond_body_assertion [OF assms(1-6) fails]
  moreover note run_conditions_skipped [OF body, of cs]
  ultimately show ?thesis by simp
qed

theorem exact_minTrials_is_insufficient_witness:
  "int (length [0 ..< 2]) = minTrials (ex_env (ex_file 2 5000)) \<and>
   fst (cond_body (ex_env (ex_file 2 5000)) ''s1'' 1 ex_world) = Skipped \<and>
   last (stdout (snd (cond_body (ex_env (ex_file 2 5000)) ''s1'' 1 ex_world))) =
     ''\<newline>Only 2 trials detected in s1_S_1.mat, skipping condition 1...\<newline>'' \<and>
   run_conditions (ex_env (ex_file 2 5000)) ''s1'' [1, 2] ex_world =
     run_conditions (ex_env (ex_file 2 5000)) ''s1'' [2]
       (snd (cond_body (ex_env (ex_file 2 5000)) ''s1'' 1 ex_world))"
proof -
  let ?E = "ex_env (ex_file 2 5000)"
  let ?w1 = "snd (open_output ?E ''s1'' 1 ex_world)"
  have "fst (open_output ?E ''s1'' 1 ex_world) = None" by code_simp
  then have h1: "open_output ?E ''s1'' 1 ex_world = (None, ?w1)" by (metis prod.collapse)
  have h2: "dict_order ?E = [] @ positive # [negative]" by (simp add: ex_env_def)
  have h3: "load_all ?E ''s1'' 1 [] [] ?w1 = (Inr [], ?w1)" by simp
  have h4: "loadmat ?E (join (dataDir ?E) (loadName ''s1'' 1 positive)) =
      Inr \<lparr>data = Some [0 ..< 2], sampleRate = Some 5000\<rparr>"
    by (simp add: ex_env_def ex_file_def)
  have h5: "data \<lparr>data = Some [0 ..< 2::nat], sampleRate = Some 5000\<rparr> = Some [0 ..< 2]" by simp
  have h6: "sampleRate \<lparr>data = Some [0 ..< 2::nat], sampleRate = Some 5000\<rparr> = Some 5000" by simp
  have h7: "int (length [0 ..< 2]) = minTrials ?E" by (simp add: ex_env_def)
  have m: "assertion_message (length [0 ..< 2]) (loadName ''s1'' 1 positive) 1 =
      ''\<newline>Only 2 trials detected in s1_S_1.mat, skipping condition 1...\<newline>''"
    by code_simp
  from exact_minTrials_is_insufficient [OF h1 h2 h3 h4 h5 h6 h7, of "[2]"] h7 m
  show ?thesis by simp
qed

lemma map_of_created: "map_of (AList.update path [] fs) path = Some []"
  by (simp add: update_conv')

text \<open>
  Claim C3. A condition in which a loaded file records a sample rate other than
  \<^verbatim>\<open>params['Fs']\<close> is skipped and the loop goes on with the next condition. Its output
  file was opened before the \<^verbatim>\<open>try\<close> statement, so it exists, and it is empty: neither
  the header nor a data row has been written, and the estimator has not been called.
\<close>

theorem sample_rate_mismatch_skips_condition:
  assumes "open_output env s c w = (None, w1)"
    and "dict_order env = pre @ l # post"
    and "load_all env s c pre [] w1 = (Inr combinedData, w2)"
    and "loadmat env (join (dataDir env) (loadName s c l)) = Inr wholeMat"
    and "data wholeMat = Some mat" and "sampleRate wholeMat = Some r"
    and "r \<noteq> Fs (params w)"
  shows "\<exists>w'. cond_body env s c w = (Skipped, w') \<and>
              map_of (files w') (outputFilename env s c w) = Some [] \<and>
              outputFile w' = Some (outputFilename env s c w, False) \<and>
              calls w' = calls w \<and>
              run_conditions env s (c # cs) w = run_conditions env s cs w'"
proof -
  note fr1 = open_output_frame [OF assms(1)]
  note fr2 = load_all_frame [OF assms(3)]
  have fails: "\<not> minTrials env < int (length mat) \<or> r \<noteq> Fs (params w2)"
    using assms(7) fr1 fr2 by simp
  let ?w' = "py_print (assertion_message (length mat) (loadName s c l) c)
               (w2\<lparr>var_l := Some l, var_mat := Some mat\<rparr>)"
  note body = cond_body_assertion [OF assms(1-6) fails]
  moreover have "map_of (files ?w') (outputFilename env s c w) = Some []"
    using fr1 fr2 by (simp add: map_of_created)
  moreover have "outputFile ?w' = Some (outputFilename env s c w, False)"
    using fr1 fr2 by simp
  moreover have "calls ?w' = calls w" using fr1 fr2 by simp
  moreover note run_conditions_skipped [OF body, of cs]
  ultimately show ?thesis by blast
qed

theorem sample_rate_mismatch_skips_condition_witness:
  "fst (cond_body (ex_env (ex_file 3 4000)) ''s1'' 1 ex_world) = Skipped \<and>
   files (snd (cond_body (ex_env (ex_file 3 4000)) ''s1'' 1 ex_world)) =
     [(''out/s1_condition_1.csv'', [])] \<and>
   run_conditions (ex_env (ex_file 3 4000)) ''s1'' [1, 2] ex_world =
     run_conditions (ex_env (ex_file 3 4000)) ''s1'' [2]
       (snd (cond_body (ex_env (ex_file 3 4000)) ''s1'' 1 ex_world))"
proof -
  let ?E = "ex_env (ex_file 3 4000)"
  let ?w1 = "snd (open_output ?E ''s1'' 1 ex_world)"
  have "fst (open_output ?E ''s1'' 1 ex_world) = None" by code_simp
  then have h1: "open_output ?E ''s1'' 1 ex_world = (None, ?w1)" by (metis prod.collapse)
  have h2: "dict_order ?E = [] @ positive # [negative]" by (simp add: ex_env_def)
  have h3: "load_all ?E ''s1'' 1 [] [] ?w1 = (Inr [], ?w1)" by simp
  have h4: "loadmat ?E (join (dataDir ?E) (loadName ''s1'' 1 positive)) =
      Inr \<lparr>data = Some [0 ..< 3], sampleRate = Some 4000\<rparr>"
    by (simp add: ex_env_def ex_file_def)
  have h5: "data \<lparr>data = Some [0 ..< 3::nat], sampleRate = Some 4000\<rparr> = Some [0 ..< 3]" by simp
  have h6: "sampleRate \<lparr>data = Some [0 ..< 3::nat], sampleRate = Some 4000\<rparr> = Some 4000" by simp
  have h7: "4000 \<noteq> Fs (params ex_world)" by (simp add: ex_world_def ex_params_def)
  have fs: "files (snd (cond_body ?E ''s1'' 1 ex_world)) = [(''out/s1_condition_1.csv'', [])]"
    by code_simp
  from sample_rate_mismatch_skips_condition [OF h1 h2 h3 h4 h5 h6 h7, of "[2]"] fs
  show ?thesis by auto
qed

text \<open>
  Claim C9. When the assertion on the sample rate fails, the handler prints the message
  of the trial-count check, with the number of trials of the file, the name of the file
  and the condition; nothing in the output mentions the sample rate.
\<close>

theorem sample_rate_mismatch_reported_as_trial_count:
  assumes "open_output env s c w = (None, w1)"
    and "dict_order env = pre @ l # post"
    and "load_all env s c pre [] w1 = (Inr combinedData, w2)"
    and "loadmat env (join (dataDir env) (loadName s c l)) = Inr wholeMat"
    and "data wholeMat = Some mat" and "sampleRate wholeMat = Some r"
    and "minTrials env < int (length mat)"
    and "r \<noteq> Fs (params w)"
  shows "fst (cond_body env s c w) = Skipped \<and>
         stdout (snd (cond_body env s c w)) =
           stdout w2 @
           [''\<newline>Only '' @ str_int (int (length mat)) @ '' trials detected in '' @
            loadName s c l @ '', skipping condition '' @ str_int c @ ''...\<newline>'']"
proof -
  note fr1 = open_output_frame [OF assms(1)]
  note fr2 = load_all_frame [OF assms(3)]
  have fails: "\<not> minTrials env < int (length mat) \<or> r \<noteq> Fs (params w2)"
    using assms(8) fr1 fr2 by simp
  from cond_body_assertion [OF assms(1-6) fails]
  show ?thesis by (simp add: assertion_message_def)
qed

theorem sample_rate_mismatch_reported_as_trial_count_witness:
  "minTrials (ex_env (ex_file 3 4000)) < int (length [0 ..< 3]) \<and>
   4000 \<noteq> Fs (params ex_world) \<and>
   fst (cond_body (ex_env (ex_file 3 4000)) ''s1'' 1 ex_world) = Skipped \<and>
   stdout (snd (cond_body (ex_env (ex_file 3 4000)) ''s1'' 1 ex_world)) =
     [''condition: 1'',
      ''\<newline>Only 3 trials detected in s1_S_1.mat, skipping condition 1...\<newline>'']"
proof -
  let ?E = "ex_env (ex_file 3 4000)"
  let ?w1 = "snd (open_output ?E ''s1'' 1 ex_world)"
  have "fst (open_output ?E ''s1'' 1 ex_world) = None" by code_simp
  then have h1: "open_output ?E ''s1'' 1 ex_world = (None, ?w1)" by (metis prod.collapse)
  have h2: "dict_order ?E = [] @ positive # [negative]" by (simp add: ex_env_def)
  have h3: "load_all ?E ''s1'' 1 [] [] ?w1 = (Inr [], ?w1)" by simp
  have h4: "loadmat ?E (join (dataDir ?E) (loadName ''s1'' 1 positive)) =
      Inr \<lparr>data = Some [0 ..< 3], sampleRate = Some 4000\<rparr>"
    by (simp add: ex_env_def ex_file_def)
  have h5: "data \<lparr>data = Some [0 ..< 3::nat], sampleRate = Some 4000\<rparr> = Some [0 ..< 3]" by simp
  have h6: "sampleRate \<lparr>data = Some [0 ..< 3::nat], sampleRate = Some 4000\<rparr> = Some 4000" by simp
  have h7: "minTrials ?E < int (length [0 ..< 3])" by (simp add: ex_env_def)
  have h8: "4000 \<noteq> Fs (params ex_world)" by (simp add: ex_world_def ex_params_def)
  have out: "stdout ?w1 = [''condition: 1'']" by code_simp
  have m: "''\<newline>Only '' @ str_int (int (length [0 ..< 3])) @ '' trials detected in '' @
      loadName ''s1'' 1 positive @ '', skipping condition '' @ str_int 1 @ ''...\<newline>'' =
      ''\<newline>Only 3 trials detected in s1_S_1.mat, skipping condition 1...\<newline>''"
    by code_simp
  from sample_rate_mismatch_reported_as_trial_count [OF h1 h2 h3 h4 h5 h6 h7 h8] h7 h8 out m
  show ?thesis by simp
qed

subsection \<open>The subsamples and the call of the estimator\<close>

lemma slice_to_subset: "set (slice_to xs m) \<subseteq> set xs"
  by (auto simp: slice_to_def dest: in_set_takeD)

lemma load_one_success:
  assumes "loadmat env (join (dataDir env) (loadName s c l)) = Inr wholeMat"
    and "data wholeMat = Some mat" and "sampleRate wholeMat = Some (Fs (params w))"
    and "minTrials env < int (length mat)"
    and "set (fst (permutation env (rng w) (length mat))) \<subseteq> {0 ..< length mat}"
  shows "load_one env s c l w =
           (Inr (map (\<lambda>i. mat ! i)
                   (slice_to (fst (permutation env (rng w) (length mat))) (minTrials env))),
            py_print (using_message (polarity_str l)
                        (format_array env
                           (slice_to (fst (permutation env (rng w) (length mat))) (minTrials env))))
              (w\<lparr>var_l := Some l, var_mat := Some mat,
                 rng := snd (permutation env (rng w) (length mat))\<rparr>))"
proof -
  let ?u = "slice_to (fst (permutation env (rng w) (length mat))) (minTrials env)"
  have "set ?u \<subseteq> {0 ..< length mat}"
    using slice_to_subset assms(5) by (rule subset_trans)
  then have "list_all (\<lambda>i. i < length mat) ?u" by (auto simp: list_all_iff)
  then have "select_trials mat ?u = Inr (map (\<lambda>i. mat ! i) ?u)" by (simp add: select_trials_def)
  then show ?thesis using assms(1-4) unfolding load_one_def Let_def by simp
qed

lemma file_write_frame:
  assumes "file_write env path chunk w = (r, w')"
  shows "calls w' = calls w \<and> params w' = params w \<and> outputFile w' = outputFile w \<and>
         rng w' = rng w \<and> stdout w' = stdout w \<and> var_l w' = var_l w \<and> var_mat w' = var_mat w"
  using assms unfolding file_write_def by (auto split: option.splits)

lemma write_rows_frame:
  "write_rows env s c path result idxs w = (r, w') \<Longrightarrow>
     calls w' = calls w \<and> params w' = params w \<and> outputFile w' = outputFile w \<and>
     rng w' = rng w \<and> stdout w' = stdout w \<and> var_l w' = var_l w \<and> var_mat w' = var_mat w"
proof (induction idxs arbitrary: w)
  case Nil
  then show ?case by simp
next
  case (Cons plvF rest)
  show ?case
  proof (cases "toWrite env s c (params w) result plvF")
    case (Inl e)
    with Cons.prems show ?thesis by simp
  next
    case (Inr line)
    obtain r1 w1 where fw: "file_write env path line w = (r1, w1)"
      by (cases "file_write env path line w")
    note fr = file_write_frame [OF fw]
    show ?thesis
    proof (cases r1)
      case None
      with Cons.prems Inr fw have "write_rows env s c path result rest w1 = (r, w')" by simp
      from Cons.IH [OF this] fr show ?thesis by simp
    next
      case (Some e)
      with Cons.prems Inr fw fr show ?thesis by simp
    qed
  qed
qed

lemma file_close_frame:
  assumes "file_close env path w = (r, w')"
  shows "calls w' = calls w \<and> params w' = params w \<and> files w' = files w \<and>
         rng w' = rng w \<and> stdout w' = stdout w \<and> var_l w' = var_l w \<and> var_mat w' = var_mat w"
  using assms unfolding file_close_def by (auto split: option.splits)

lemma call_bootfunc_frame:
  assumes "call_bootfunc env combinedData w = (r, w')"
  shows "calls w' = calls w @ [(combinedData, params w)] \<and> files w' = files w \<and>
         outputFile w' = outputFile w \<and> stdout w' = stdout w \<and>
         var_l w' = var_l w \<and> var_mat w' = var_mat w \<and>
         bootfunc env (rng w) combinedData (params w) = (r, params w', rng w')"
  using assms unfolding call_bootfunc_def by (auto split: prod.splits)

lemma try_block_calls:
  assumes "load_all env s c (dict_order env) [] w = (Inr combinedData, w1)"
  shows "calls (snd (try_block env s c path w)) = calls w @ [(combinedData, params w)]"
proof -
  note fr = load_all_frame [OF assms]
  obtain r2 w2 where cb: "call_bootfunc env combinedData w1 = (r2, w2)"
    by (cases "call_bootfunc env combinedData w1")
  note fr2 = call_bootfunc_frame [OF cb]
  have c2: "calls w2 = calls w @ [(combinedData, params w)]" using fr fr2 by simp
  show ?thesis
  proof (cases r2)
    case (Inl e)
    with assms cb c2 show ?thesis by (simp add: try_block_def)
  next
    case (Inr result)
    obtain r3 w3 where hw: "file_write env path (printStr_format column_names) w2 = (r3, w3)"
      by (cases "file_write env path (printStr_format column_names) w2")
    note fr3 = file_write_frame [OF hw]
    show ?thesis
    proof (cases r3)
      case (Some e)
      with assms cb Inr hw c2 fr3 show ?thesis by (simp add: try_block_def)
    next
      case None
      obtain r4 w4 where
        wr: "write_rows env s c path result [0 ..< length (f_axis (params w3))] w3 = (r4, w4)"
        by (cases "write_rows env s c path result [0 ..< length (f_axis (params w3))] w3")
      note fr4 = write_rows_frame [OF wr]
      show ?thesis
      proof (cases r4)
        case (Some e)
        with assms cb Inr hw None wr c2 fr3 fr4 show ?thesis by (simp add: try_block_def)
      next
        case n4: None
        obtain r5 w5 where cl: "file_close env path w4 = (r5, w5)"
          by (cases "file_close env path w4")
        note fr5 = file_close_frame [OF cl]
        from assms cb Inr hw None wr n4 cl c2 fr3 fr4 fr5 show ?thesis
          by (simp add: try_block_def)
      qed
    qed
  qed
qed

lemma handle_calls: "calls (snd (handle s c r)) = calls (snd r)"
  unfolding handle_def by (auto split: prod.splits option.splits exn.splits)

lemma cond_body_opened:
  "open_output env s c w = (None, w1) \<Longrightarrow>
     cond_body env s c w = handle s c (try_block env s c (outputFilename env s c w) w1)"
  by (simp add: cond_body_def)

text \<open>
  Claim C5, as the script has it. Here \<open>permutation env\<close> stands for
  \<^verbatim>\<open>numpy.random.permutation\<close>, the uniformly random permutation of the claim, of which
  the model assumes only that it returns a permutation of the indices it is given; the
  two matrices are valid, that is, both files load and record the rate \<^verbatim>\<open>params['Fs']\<close>,
  and have more than \<open>minTrials\<close> trials. The slice \<^verbatim>\<open>permutedTrials[0:minTrials]\<close> has
  \<open>minTrials\<close> elements only when \<open>minTrials\<close> is not negative, which the claim does not
  say. Then each subsample is the first \<open>minTrials\<close> entries of the permutation drawn for
  its matrix, so it has exactly \<open>minTrials\<close> distinct indices of that matrix; the two
  permutations are drawn by two separate calls, the second from the generator as the
  first call left it; and the estimator is called exactly once in the condition, with
  the list of the two subsampled matrices, in the order of the loop, and \<^verbatim>\<open>params\<close>.
\<close>

theorem estimator_called_once_on_subsamples:
  assumes "open_output env s c w = (None, w1)"
    and "dict_order env = [l1, l2]"
    and "loadmat env (join (dataDir env) (loadName s c l1)) = Inr wholeMat1"
    and "loadmat env (join (dataDir env) (loadName s c l2)) = Inr wholeMat2"
    and "data wholeMat1 = Some mat1" and "data wholeMat2 = Some mat2"
    and "sampleRate wholeMat1 = Some (Fs (params w))"
    and "sampleRate wholeMat2 = Some (Fs (params w))"
    and "0 \<le> minTrials env"
    and "minTrials env < int (length mat1)" and "minTrials env < int (length mat2)"
    and "\<forall>g n. distinct (fst (permutation env g n)) \<and> set (fst (permutation env g n)) = {0 ..< n}"
    and "draw1 = permutation env (rng w) (length mat1)"
    and "draw2 = permutation env (snd draw1) (length mat2)"
    and "useTrials1 = take (nat (minTrials env)) (fst draw1)"
    and "useTrials2 = take (nat (minTrials env)) (fst draw2)"
  shows "calls (snd (cond_body env s c w)) =
           calls w @ [([map (\<lambda>i. mat1 ! i) useTrials1, map (\<lambda>i. mat2 ! i) useTrials2], params w)] \<and>
         length useTrials1 = nat (minTrials env) \<and> length useTrials2 = nat (minTrials env) \<and>
         distinct useTrials1 \<and> distinct useTrials2 \<and>
         set useTrials1 \<subseteq> {0 ..< length mat1} \<and> set useTrials2 \<subseteq> {0 ..< length mat2}"
proof -
  note fr1 = open_output_frame [OF assms(1)]
  have perm: "distinct (fst (permutation env g n))" "set (fst (permutation env g n)) = {0 ..< n}"
    for g n using assms(12) by simp_all
  have len: "length (fst (permutation env g n)) = n" for g n
    using perm [of g n] by (metis card_atLeastLessThan diff_zero distinct_card)
  have sl: "slice_to xs (minTrials env) = take (nat (minTrials env)) xs" for xs :: "nat list"
    using assms(9) by (simp add: slice_to_def)
  let ?wa = "py_print (using_message (polarity_str l1) (format_array env useTrials1))
               (w1\<lparr>var_l := Some l1, var_mat := Some mat1, rng := snd draw1\<rparr>)"
  have one: "load_one env s c l1 w1 = (Inr (map (\<lambda>i. mat1 ! i) useTrials1), ?wa)"
    using load_one_success [of env s c l1 wholeMat1 mat1 w1] assms(3,5,7,10) fr1 perm
    by (simp add: sl assms(13,15))
  let ?wb = "py_print (using_message (polarity_str l2) (format_array env useTrials2))
               (?wa\<lparr>var_l := Some l2, var_mat := Some mat2, rng := snd draw2\<rparr>)"
  have two: "load_one env s c l2 ?wa = (Inr (map (\<lambda>i. mat2 ! i) useTrials2), ?wb)"
    using load_one_success [of env s c l2 wholeMat2 mat2 ?wa] assms(4,6,8,11) fr1 perm
    by (simp add: sl assms(14,16))
  have "load_all env s c (dict_order env) [] w1 =
          (Inr [map (\<lambda>i. mat1 ! i) useTrials1, map (\<lambda>i. mat2 ! i) useTrials2], ?wb)"
    using one two by (simp add: assms(2))
  from try_block_calls [OF this, of "outputFilename env s c w"]
  have "calls (snd (cond_body env s c w)) =
          calls w @ [([map (\<lambda>i. mat1 ! i) useTrials1, map (\<lambda>i. mat2 ! i) useTrials2], params w)]"
    using fr1 by (simp add: cond_body_opened [OF assms(1)] handle_calls)
  moreover have "length useTrials1 = nat (minTrials env)" "length useTrials2 = nat (minTrials env)"
    using assms(9-11) len [of "rng w" "length mat1"] len [of "snd draw1" "length mat2"]
    unfolding assms(13-16) by simp_all
  moreover have "distinct useTrials1" "distinct useTrials2"
    using perm(1) [of "rng w" "length mat1"] perm(1) [of "snd draw1" "length mat2"]
    unfolding assms(13-16) by simp_all
  moreover have "set useTrials1 \<subseteq> {0 ..< length mat1}" "set useTrials2 \<subseteq> {0 ..< length mat2}"
    using perm(2) [of "rng w" "length mat1"] perm(2) [of "snd draw1" "length mat2"]
      set_take_subset [of "nat (minTrials env)" "fst draw1"]
      set_take_subset [of "nat (minTrials env)" "fst draw2"]
    unfolding assms(13-16) by auto
  ultimately show ?thesis by simp
qed

theorem estimator_called_once_on_subsamples_witness:
  "minTrials (ex_env (ex_file 3 5000)) < int (length [0 ..< 3]) \<and>
   calls (snd (cond_body (ex_env (ex_file 3 5000)) ''s1'' 1 ex_world)) =
     [([[2, 1], [2, 1]], ex_params)]"
proof -
  let ?E = "ex_env (ex_file 3 5000)"
  let ?w1 = "snd (open_output ?E ''s1'' 1 ex_world)"
  let ?wm = "\<lparr>data = Some [0 ..< 3], sampleRate = Some 5000\<rparr> :: nat wholeMat"
  have "fst (open_output ?E ''s1'' 1 ex_world) = None" by code_simp
  then have h1: "open_output ?E ''s1'' 1 ex_world = (None, ?w1)" by (metis prod.collapse)
  have h2: "dict_order ?E = [positive, negative]" by (simp add: ex_env_def)
  have h3: "loadmat ?E (join (dataDir ?E) (loadName ''s1'' 1 positive)) = Inr ?wm"
    by (simp add: ex_env_def ex_file_def)
  have h4: "loadmat ?E (join (dataDir ?E) (loadName ''s1'' 1 negative)) = Inr ?wm"
    by (simp add: ex_env_def ex_file_def)
  have h5: "data ?wm = Some [0 ..< 3]" by simp
  have h7: "sampleRate ?wm = Some (Fs (params ex_world))"
    by (simp add: ex_world_def ex_params_def)
  have h9: "0 \<le> minTrials ?E" by (simp add: ex_env_def)
  have h10: "minTrials ?E < int (length [0 ..< 3])" by (simp add: ex_env_def)
  have h12: "\<forall>g n. distinct (fst (permutation ?E g n)) \<and> set (fst (permutation ?E g n)) = {0 ..< n}"
    by (simp add: ex_env_def)
  have e: "calls ex_world @
      [([map (\<lambda>i. [0 ..< 3] ! i)
           (take (nat (minTrials ?E)) (fst (permutation ?E (rng ex_world) (length [0 ..< 3])))),
         map (\<lambda>i. [0 ..< 3] ! i)
           (take (nat (minTrials ?E))
              (fst (permutation ?E (snd (permutation ?E (rng ex_world) (length [0 ..< 3])))
                      (length [0 ..< 3]))))],
        params ex_world)] = [([[2, 1], [2, 1]], ex_params)]"
    by code_simp
  from estimator_called_once_on_subsamples
    [OF h1 h2 h3 h4 h5 h5 h7 h7 h9 h10 h10 h12 refl refl refl refl]
  have "calls (snd (cond_body ?E ''s1'' 1 ex_world)) =
      calls ex_world @
      [([map (\<lambda>i. [0 ..< 3] ! i)
           (take (nat (minTrials ?E)) (fst (permutation ?E (rng ex_world) (length [0 ..< 3])))),
         map (\<lambda>i. [0 ..< 3] ! i)
           (take (nat (minTrials ?E))
              (fst (permutation ?E (snd (permutation ?E (rng ex_world) (length [0 ..< 3])))
                      (length [0 ..< 3]))))],
        params ex_world)]"
    by (rule conjunct1)
  with e h10 show ?thesis by simp
qed

text \<open>
  Claim C5 as stated fails for a negative \<open>minTrials\<close>, which the command line accepts:
  with \<open>minTrials = -1\<close> and two valid matrices of three trials each, both have more than
  \<open>minTrials\<close> trials, the slice \<^verbatim>\<open>permutedTrials[0:-1]\<close> drops the last entry of the
  permutation, and the estimator receives two subsamples of two trials each.
\<close>

theorem negative_minTrials_subsample_size:
  "minTrials ex_negative = - 1 \<and>
   loadmat ex_negative (join ''data'' ''s1_S_1.mat'') =
     Inr \<lparr>data = Some [0, 1, 2], sampleRate = Some 5000\<rparr> \<and>
   loadmat ex_negative (join ''data'' ''s1_S_7.mat'') =
     Inr \<lparr>data = Some [0, 1, 2], sampleRate = Some 5000\<rparr> \<and>
   Fs (params ex_world) = 5000 \<and>
   minTrials ex_negative < int (length [0, 1, 2 :: nat]) \<and>
   fst (cond_body ex_negative ''s1'' 1 ex_world) = Done \<and>
   calls (snd (cond_body ex_negative ''s1'' 1 ex_world)) = [([[2, 1], [2, 1]], ex_params)] \<and>
   int (length [2, 1 :: nat]) \<noteq> minTrials ex_negative"
  by code_simp

subsection \<open>The output file on the normal path\<close>

lemma file_write_ok:
  assumes "file_write env path chunk w = (None, w')"
  shows "map_of (files w') path = Some (file_content (files w) path @ [chunk])"
  using assms unfolding file_write_def by (auto split: option.splits simp: update_conv')

lemma toWrite_Inr:
  assumes "toWrite env s c p result plvF = Inr line"
  shows "line = printStr_format
                  ([s, str_int c, str_int (nDraws p), str_int (nPerDraw p),
                    format_value env (f_axis p ! plvF)] @
                   map (\<lambda>key. format_value env (projr (stat result plvF key))) stat_keys) \<and>
         plvF < length (f_axis p) \<and>
         (\<forall>key \<in> set stat_keys. \<exists>v. stat result plvF key = Inr v)"
proof -
  have ok: "plvF < length (f_axis p)" "\<not> list_ex isl (map (stat result plvF) stat_keys)"
    using assms unfolding toWrite_def by (auto split: if_splits)
  have "\<exists>v. stat result plvF key = Inr v" if "key \<in> set stat_keys" for key
    using ok(2) that by (cases "stat result plvF key") (auto simp: list_ex_iff)
  then show ?thesis using assms ok unfolding toWrite_def by simp
qed

lemma write_rows_ok:
  "write_rows env s c path result idxs w = (None, w') \<Longrightarrow>
     file_content (files w') path =
       file_content (files w) path @
       map (\<lambda>plvF. printStr_format
              ([s, str_int c, str_int (nDraws (params w)), str_int (nPerDraw (params w)),
                format_value env (f_axis (params w) ! plvF)] @
               map (\<lambda>key. format_value env (projr (stat result plvF key))) stat_keys)) idxs \<and>
     (\<forall>plvF \<in> set idxs. \<forall>key \<in> set stat_keys. \<exists>v. stat result plvF key = Inr v) \<and>
     (idxs \<noteq> [] \<longrightarrow> map_of (files w') path \<noteq> None) \<and> (idxs = [] \<longrightarrow> files w' = files w)"
proof (induction idxs arbitrary: w)
  case Nil
  then show ?case by simp
next
  case (Cons plvF rest)
  from Cons.prems obtain line where tw: "toWrite env s c (params w) result plvF = Inr line"
    by (cases "toWrite env s c (params w) result plvF") auto
  note row = toWrite_Inr [OF tw]
  from Cons.prems tw obtain w1 where fw: "file_write env path line w = (None, w1)"
    and rest: "write_rows env s c path result rest w1 = (None, w')"
    by (auto split: prod.splits option.splits)
  note fr = file_write_frame [OF fw]
  note one = file_write_ok [OF fw]
  then have c1: "file_content (files w1) path = file_content (files w) path @ [line]"
    by (simp add: file_content_def)
  note ih = Cons.IH [OF rest]
  have ex: "map_of (files w') path \<noteq> None"
  proof (cases "rest = []")
    case True
    with ih one show ?thesis by simp
  next
    case False
    with ih show ?thesis by simp
  qed
  from ih row c1 fr ex show ?case by simp
qed

lemma try_block_None:
  assumes "try_block env s c path w = (None, w')"
  shows "\<exists>combinedData wl result w2 w3 w4.
           load_all env s c (dict_order env) [] w = (Inr combinedData, wl) \<and>
           call_bootfunc env combinedData wl = (Inr result, w2) \<and>
           file_write env path (printStr_format column_names) w2 = (None, w3) \<and>
           write_rows env s c path result [0 ..< length (f_axis (params w3))] w3 = (None, w4) \<and>
           file_close env path w4 = (None, w')"
  using assms unfolding try_block_def
  by (auto split: prod.splits sum.splits option.splits)

lemma handle_Done: "handle s c r = (Done, w') \<Longrightarrow> r = (None, w')"
  unfolding handle_def by (auto split: prod.splits option.splits exn.splits)

lemma cond_body_Done:
  assumes "cond_body env s c w = (Done, w')"
  shows "\<exists>w1. open_output env s c w = (None, w1) \<and>
              try_block env s c (outputFilename env s c w) w1 = (None, w')"
proof -
  obtain r1 w1 where op: "open_output env s c w = (r1, w1)" by (cases "open_output env s c w")
  with assms have "r1 = None" by (cases r1) (auto simp: cond_body_def)
  with assms op have "handle s c (try_block env s c (outputFilename env s c w) w1) = (Done, w')"
    by (simp add: cond_body_def)
  from handle_Done [OF this] op \<open>r1 = None\<close> show ?thesis by simp
qed

lemma file_close_ok:
  "file_close env path w = (None, w') \<Longrightarrow> outputFile w' = Some (path, True)"
  unfolding file_close_def by (auto split: option.splits)

lemma stat_Inr:
  assumes "stat result plvF key = Inr v"
  shows "\<exists>d xs. result (fst key) = Some d \<and> d (snd key) = Some xs \<and> plvF < length xs \<and>
           v = xs ! plvF"
  using assms unfolding stat_def by (auto split: option.splits if_splits)

lemma stat_value:
  assumes "stat result plvF key = Inr v"
  shows "projr (stat result plvF key) = the (the (result (fst key)) (snd key)) ! plvF"
  using stat_Inr [OF assms] assms by auto

lemma data_row_text:
  assumes "\<forall>key \<in> set stat_keys. \<exists>v. stat result plvF key = Inr v"
  shows "printStr_format
           ([s, c, d, n, f] @ map (\<lambda>key. fmt (projr (stat result plvF key))) stat_keys) =
         s @ '','' @ c @ '','' @ d @ '','' @ n @ '','' @ f @ '','' @
         fmt (the (the (result ''mtcpcaPLV_normalPhase'') ''bootMean'') ! plvF) @ '','' @
         fmt (the (the (result ''mtcpcaPLV_normalPhase'') ''bootVariance'') ! plvF) @ '','' @
         fmt (the (the (result ''mtcpcaSpectrum_normalPhase'') ''bootMean'') ! plvF) @ '','' @
         fmt (the (the (result ''mtcpcaSpectrum_normalPhase'') ''bootVariance'') ! plvF) @ '','' @
         fmt (the (the (result ''mtcpcaPLV_phaseFlipHalfTrials'') ''bootMean'') ! plvF) @ '','' @
         fmt (the (the (result ''mtcpcaPLV_phaseFlipHalfTrials'') ''bootVariance'') ! plvF) @ '','' @
         fmt (the (the (result ''mtcpcaSpectrum_phaseFlipHalfTrials'') ''bootMean'') ! plvF) @ '','' @
         fmt (the (the (result ''mtcpcaSpectrum_phaseFlipHalfTrials'') ''bootVariance'') ! plvF) @
         ''\<newline>''"
proof -
  have eq: "map (\<lambda>key. fmt (projr (stat result plvF key))) stat_keys =
      map (\<lambda>key. fmt (the (the (result (fst key)) (snd key)) ! plvF)) stat_keys"
  proof (rule map_cong [OF refl])
    fix key assume "key \<in> set stat_keys"
    with assms obtain v where "stat result plvF key = Inr v" by blast
    from stat_value [OF this]
    show "fmt (projr (stat result plvF key)) = fmt (the (the (result (fst key)) (snd key)) ! plvF)"
      by simp
  qed
  show ?thesis by (simp only: eq) (simp add: printStr_format_def stat_keys_def)
qed

lemma csv_contents_aux:
  assumes "cond_body env s c w = (Done, w')"
  shows "\<exists>result combinedData g p.
           bootfunc env g combinedData p = (Inr result, params w', rng w') \<and>
           map_of (files w') (outputFilename env s c w) =
             Some (printStr_format column_names #
                   map (\<lambda>plvF. printStr_format
                          ([s, str_int c, str_int (nDraws (params w')),
                            str_int (nPerDraw (params w')),
                            format_value env (f_axis (params w') ! plvF)] @
                           map (\<lambda>key. format_value env (projr (stat result plvF key))) stat_keys))
                     [0 ..< length (f_axis (params w'))]) \<and>
           (\<forall>plvF < length (f_axis (params w')). \<forall>key \<in> set stat_keys.
              \<exists>v. stat result plvF key = Inr v) \<and>
           length column_names = 13 \<and> length stat_keys = 8 \<and>
           printStr_format column_names =
             ''Subject Name,Condition,Number of Draws,Trials per Draw,Frequency,'' @
             ''PLV**2: bootstrapped mean,PLV**2: bootstrapped variance,'' @
             ''Spectrum: bootstrapped mean,Spectrum: bootstrapped variance,'' @
             ''Noise floor PLV**2: bootstrapped mean,Noise floor PLV**2: bootstrapped variance,'' @
             ''Noise floor Spectrum: bootstrapped mean,'' @
             ''Noise floor Spectrum: bootstrapped variance\<newline>'' \<and>
           outputFile w' = Some (outputFilename env s c w, True)"
proof -
  let ?path = "outputFilename env s c w"
  from cond_body_Done [OF assms] obtain w1 where op: "open_output env s c w = (None, w1)"
    and tb: "try_block env s c ?path w1 = (None, w')" by blast
  from try_block_None [OF tb] obtain combinedData wl result w2 w3 w4 where
    la: "load_all env s c (dict_order env) [] w1 = (Inr combinedData, wl)" and
    cb: "call_bootfunc env combinedData wl = (Inr result, w2)" and
    hw: "file_write env ?path (printStr_format column_names) w2 = (None, w3)" and
    wr: "write_rows env s c ?path result [0 ..< length (f_axis (params w3))] w3 = (None, w4)" and
    cl: "file_close env ?path w4 = (None, w')" by blast
  note f1 = open_output_frame [OF op]
  note f2 = load_all_frame [OF la]
  note f3 = call_bootfunc_frame [OF cb]
  note f4 = file_write_frame [OF hw]
  note f5 = write_rows_frame [OF wr]
  note f6 = file_close_frame [OF cl]
  have par: "params w3 = params w'" "params w2 = params w'" "rng w2 = rng w'"
    using f4 f5 f6 by simp_all
  have "file_content (files w2) ?path = []"
    using f1(1) f2 f3 by (simp add: file_content_def update_conv')
  with file_write_ok [OF hw]
  have h: "map_of (files w3) ?path = Some [printStr_format column_names]" by simp
  then have hc: "file_content (files w3) ?path = [printStr_format column_names]"
    by (simp add: file_content_def)
  note rows = write_rows_ok [OF wr]
  have ex: "map_of (files w4) ?path \<noteq> None"
  proof (cases "[0 ..< length (f_axis (params w3))] = []")
    case True
    with rows h show ?thesis by simp
  next
    case False
    with rows show ?thesis by blast
  qed
  then obtain chunks where ch: "map_of (files w4) ?path = Some chunks" by blast
  then have "file_content (files w4) ?path = chunks" by (simp add: file_content_def)
  with rows hc ch f6 par
  have content: "map_of (files w') ?path =
      Some (printStr_format column_names #
            map (\<lambda>plvF. printStr_format
                   ([s, str_int c, str_int (nDraws (params w')), str_int (nPerDraw (params w')),
                     format_value env (f_axis (params w') ! plvF)] @
                    map (\<lambda>key. format_value env (projr (stat result plvF key))) stat_keys))
              [0 ..< length (f_axis (params w'))])"
    by simp
  have stats: "\<forall>plvF < length (f_axis (params w')). \<forall>key \<in> set stat_keys.
      \<exists>v. stat result plvF key = Inr v"
    using rows par by simp
  have boot: "bootfunc env (rng wl) combinedData (params wl) = (Inr result, params w', rng w')"
    using f3 par by simp
  have lens: "length column_names = 13" "length stat_keys = 8"
    by (simp_all add: column_names_def stat_keys_def)
  have header: "printStr_format column_names =
      ''Subject Name,Condition,Number of Draws,Trials per Draw,Frequency,'' @
      ''PLV**2: bootstrapped mean,PLV**2: bootstrapped variance,'' @
      ''Spectrum: bootstrapped mean,Spectrum: bootstrapped variance,'' @
      ''Noise floor PLV**2: bootstrapped mean,Noise floor PLV**2: bootstrapped variance,'' @
      ''Noise floor Spectrum: bootstrapped mean,'' @
      ''Noise floor Spectrum: bootstrapped variance\<newline>''"
    by code_simp
  from boot content stats lens header file_close_ok [OF cl] show ?thesis by blast
qed

text \<open>
  Claim C6. When a condition is processed without an exception, its output file holds
  the header row, made of the thirteen fixed column names, followed by one data row for
  each entry of \<^verbatim>\<open>params['f']\<close> as the estimator left it, and nothing else. Each data row
  has, separated by commas and in this order: the subject, the condition,
  \<^verbatim>\<open>params['nDraws']\<close>, \<^verbatim>\<open>params['nPerDraw']\<close>, the frequency, and then, at that
  frequency, \<^verbatim>\<open>bootMean\<close> and \<^verbatim>\<open>bootVariance\<close> of \<^verbatim>\<open>mtcpcaPLV_normalPhase\<close>, of
  \<^verbatim>\<open>mtcpcaSpectrum_normalPhase\<close>, of \<^verbatim>\<open>mtcpcaPLV_phaseFlipHalfTrials\<close> and of
  \<^verbatim>\<open>mtcpcaSpectrum_phaseFlipHalfTrials\<close>, all of which the result of the estimator
  provides; and the file has been closed.
\<close>

theorem csv_header_and_one_row_per_frequency:
  assumes "cond_body env s c w = (Done, w')"
  shows "\<exists>result combinedData g p.
           bootfunc env g combinedData p = (Inr result, params w', rng w') \<and>
           map_of (files w') (outputFilename env s c w) =
             Some ((''Subject Name,Condition,Number of Draws,Trials per Draw,Frequency,'' @
                    ''PLV**2: bootstrapped mean,PLV**2: bootstrapped variance,'' @
                    ''Spectrum: bootstrapped mean,Spectrum: bootstrapped variance,'' @
                    ''Noise floor PLV**2: bootstrapped mean,'' @
                    ''Noise floor PLV**2: bootstrapped variance,'' @
                    ''Noise floor Spectrum: bootstrapped mean,'' @
                    ''Noise floor Spectrum: bootstrapped variance\<newline>'') #
                   map (\<lambda>plvF.
                         s @ '','' @
                         str_int c @ '','' @
                         str_int (nDraws (params w')) @ '','' @
                         str_int (nPerDraw (params w')) @ '','' @
                         format_value env (f_axis (params w') ! plvF) @ '','' @
                         format_value env (the (the (result ''mtcpcaPLV_normalPhase'') ''bootMean'') ! plvF) @ '','' @
                         format_value env (the (the (result ''mtcpcaPLV_normalPhase'') ''bootVariance'') ! plvF) @ '','' @
                         format_value env (the (the (result ''mtcpcaSpectrum_normalPhase'') ''bootMean'') ! plvF) @ '','' @
                         format_value env (the (the (result ''mtcpcaSpectrum_normalPhase'') ''bootVariance'') ! plvF) @ '','' @
                         format_value env (the (the (result ''mtcpcaPLV_phaseFlipHalfTrials'') ''bootMean'') ! plvF) @ '','' @
                         format_value env (the (the (result ''mtcpcaPLV_phaseFlipHalfTrials'') ''bootVariance'') ! plvF) @ '','' @
                         format_value env (the (the (result ''mtcpcaSpectrum_phaseFlipHalfTrials'') ''bootMean'') ! plvF) @ '','' @
                         format_value env (the (the (result ''mtcpcaSpectrum_phaseFlipHalfTrials'') ''bootVariance'') ! plvF) @ ''\<newline>'')
                     [0 ..< length (f_axis (params w'))]) \<and>
           (\<forall>plvF < length (f_axis (params w')).
              \<forall>key \<in> set [(''mtcpcaPLV_normalPhase'', ''bootMean''),
                         (''mtcpcaPLV_normalPhase'', ''bootVariance''),
                         (''mtcpcaSpectrum_normalPhase'', ''bootMean''),
                         (''mtcpcaSpectrum_normalPhase'', ''bootVariance''),
                         (''mtcpcaPLV_phaseFlipHalfTrials'', ''bootMean''),
                         (''mtcpcaPLV_phaseFlipHalfTrials'', ''bootVariance''),
                         (''mtcpcaSpectrum_phaseFlipHalfTrials'', ''bootMean''),
                         (''mtcpcaSpectrum_phaseFlipHalfTrials'', ''bootVariance'')].
                \<exists>d xs. result (fst key) = Some d \<and> d (snd key) = Some xs \<and> plvF < length xs) \<and>
           outputFile w' = Some (outputFilename env s c w, True)"
proof -
  from csv_contents_aux [OF assms] obtain result combinedData g p where
    boot: "bootfunc env g combinedData p = (Inr result, params w', rng w')" and
    content: "map_of (files w') (outputFilename env s c w) =
      Some (printStr_format column_names #
            map (\<lambda>plvF. printStr_format
                   ([s, str_int c, str_int (nDraws (params w')), str_int (nPerDraw (params w')),
                     format_value env (f_axis (params w') ! plvF)] @
                    map (\<lambda>key. format_value env (projr (stat result plvF key))) stat_keys))
              [0 ..< length (f_axis (params w'))])" and
    stats: "\<forall>plvF < length (f_axis (params w')). \<forall>key \<in> set stat_keys.
      \<exists>v. stat result plvF key = Inr v" and
    header: "printStr_format column_names =
      ''Subject Name,Condition,Number of Draws,Trials per Draw,Frequency,'' @
      ''PLV**2: bootstrapped mean,PLV**2: bootstrapped variance,'' @
      ''Spectrum: bootstrapped mean,Spectrum: bootstrapped variance,'' @
      ''Noise floor PLV**2: bootstrapped mean,Noise floor PLV**2: bootstrapped variance,'' @
      ''Noise floor Spectrum: bootstrapped mean,'' @
      ''Noise floor Spectrum: bootstrapped variance\<newline>''" and
    closed: "outputFile w' = Some (outputFilename env s c w, True)"
    by blast
  have rows: "map (\<lambda>plvF. printStr_format
                   ([s, str_int c, str_int (nDraws (params w')), str_int (nPerDraw (params w')),
                     format_value env (f_axis (params w') ! plvF)] @
                    map (\<lambda>key. format_value env (projr (stat result plvF key))) stat_keys))
              [0 ..< length (f_axis (params w'))] =
      map (\<lambda>plvF.
             s @ '','' @
                         str_int c @ '','' @
                         str_int (nDraws (params w')) @ '','' @
                         str_int (nPerDraw (params w')) @ '','' @
                         format_value env (f_axis (params w') ! plvF) @ '','' @
                         format_value env (the (the (result ''mtcpcaPLV_normalPhase'') ''bootMean'') ! plvF) @ '','' @
                         format_value env (the (the (result ''mtcpcaPLV_normalPhase'') ''bootVariance'') ! plvF) @ '','' @
                         format_value env (the (the (result ''mtcpcaSpectrum_normalPhase'') ''bootMean'') ! plvF) @ '','' @
                         format_value env (the (the (result ''mtcpcaSpectrum_normalPhase'') ''bootVariance'') ! plvF) @ '','' @
                         format_value env (the (the (result ''mtcpcaPLV_phaseFlipHalfTrials'') ''bootMean'') ! plvF) @ '','' @
                         format_value env (the (the (result ''mtcpcaPLV_phaseFlipHalfTrials'') ''bootVariance'') ! plvF) @ '','' @
                         format_value env (the (the (result ''mtcpcaSpectrum_phaseFlipHalfTrials'') ''bootMean'') ! plvF) @ '','' @
                         format_value env (the (the (result ''mtcpcaSpectrum_phaseFlipHalfTrials'') ''bootVariance'') ! plvF) @ ''\<newline>'')
        [0 ..< length (f_axis (params w'))]"
  proof (rule map_cong [OF refl])
    fix plvF assume "plvF \<in> set [0 ..< length (f_axis (params w'))]"
    with stats have "\<forall>key \<in> set stat_keys. \<exists>v. stat result plvF key = Inr v" by simp
    then show "printStr_format
                   ([s, str_int c, str_int (nDraws (params w')), str_int (nPerDraw (params w')),
                     format_value env (f_axis (params w') ! plvF)] @
                    map (\<lambda>key. format_value env (projr (stat result plvF key))) stat_keys) =
             s @ '','' @
                         str_int c @ '','' @
                         str_int (nDraws (params w')) @ '','' @
                         str_int (nPerDraw (params w')) @ '','' @
                         format_value env (f_axis (params w') ! plvF) @ '','' @
                         format_value env (the (the (result ''mtcpcaPLV_normalPhase'') ''bootMean'') ! plvF) @ '','' @
                         format_value env (the (the (result ''mtcpcaPLV_normalPhase'') ''bootVariance'') ! plvF) @ '','' @
                         format_value env (the (the (result ''mtcpcaSpectrum_normalPhase'') ''bootMean'') ! plvF) @ '','' @
                         format_value env (the (the (result ''mtcpcaSpectrum_normalPhase'') ''bootVariance'') ! plvF) @ '','' @
                         format_value env (the (the (result ''mtcpcaPLV_phaseFlipHalfTrials'') ''bootMean'') ! plvF) @ '','' @
                         format_value env (the (the (result ''mtcpcaPLV_phaseFlipHalfTrials'') ''bootVariance'') ! plvF) @ '','' @
                         format_value env (the (the (result ''mtcpcaSpectrum_phaseFlipHalfTrials'') ''bootMean'') ! plvF) @ '','' @
                         format_value env (the (the (result ''mtcpcaSpectrum_phaseFlipHalfTrials'') ''bootVariance'') ! plvF) @ ''\<newline>''"
      by (rule data_row_text)
  qed
  have present: "\<exists>d xs. result (fst key) = Some d \<and> d (snd key) = Some xs \<and> plvF < length xs"
    if "plvF < length (f_axis (params w'))" and "key \<in> set stat_keys" for plvF key
  proof -
    from stats that obtain v where "stat result plvF key = Inr v" by blast
    from stat_Inr [OF this] show ?thesis by blast
  qed
  have keys: "set [(''mtcpcaPLV_normalPhase'', ''bootMean''),
                         (''mtcpcaPLV_normalPhase'', ''bootVariance''),
                         (''mtcpcaSpectrum_normalPhase'', ''bootMean''),
                         (''mtcpcaSpectrum_normalPhase'', ''bootVariance''),
                         (''mtcpcaPLV_phaseFlipHalfTrials'', ''bootMean''),
                         (''mtcpcaPLV_phaseFlipHalfTrials'', ''bootVariance''),
                         (''mtcpcaSpectrum_phaseFlipHalfTrials'', ''bootMean''),
                         (''mtcpcaSpectrum_phaseFlipHalfTrials'', ''bootVariance'')] = set stat_keys"
    by (simp add: stat_keys_def)
  have c1: "map_of (files w') (outputFilename env s c w) =
             Some ((''Subject Name,Condition,Number of Draws,Trials per Draw,Frequency,'' @
                    ''PLV**2: bootstrapped mean,PLV**2: bootstrapped variance,'' @
                    ''Spectrum: bootstrapped mean,Spectrum: bootstrapped variance,'' @
                    ''Noise floor PLV**2: bootstrapped mean,'' @
                    ''Noise floor PLV**2: bootstrapped variance,'' @
                    ''Noise floor Spectrum: bootstrapped mean,'' @
                    ''Noise floor Spectrum: bootstrapped variance\<newline>'') #
                   map (\<lambda>plvF.
                         s @ '','' @
                         str_int c @ '','' @
                         str_int (nDraws (params w')) @ '','' @
                         str_int (nPerDraw (params w')) @ '','' @
                         format_value env (f_axis (params w') ! plvF) @ '','' @
                         format_value env (the (the (result ''mtcpcaPLV_normalPhase'') ''bootMean'') ! plvF) @ '','' @
                         format_value env (the (the (result ''mtcpcaPLV_normalPhase'') ''bootVariance'') ! plvF) @ '','' @
                         format_value env (the (the (result ''mtcpcaSpectrum_normalPhase'') ''bootMean'') ! plvF) @ '','' @
                         format_value env (the (the (result ''mtcpcaSpectrum_normalPhase'') ''bootVariance'') ! plvF) @ '','' @
                         format_value env (the (the (result ''mtcpcaPLV_phaseFlipHalfTrials'') ''bootMean'') ! plvF) @ '','' @
                         format_value env (the (the (result ''mtcpcaPLV_phaseFlipHalfTrials'') ''bootVariance'') ! plvF) @ '','' @
                         format_value env (the (the (result ''mtcpcaSpectrum_phaseFlipHalfTrials'') ''bootMean'') ! plvF) @ '','' @
                         format_value env (the (the (result ''mtcpcaSpectrum_phaseFlipHalfTrials'') ''bootVariance'') ! plvF) @ ''\<newline>'')
                     [0 ..< length (f_axis (params w'))])"
    by (simp only: content rows header) simp
  have c2: "\<forall>plvF < length (f_axis (params w')).
              \<forall>key \<in> set [(''mtcpcaPLV_normalPhase'', ''bootMean''),
                         (''mtcpcaPLV_normalPhase'', ''bootVariance''),
                         (''mtcpcaSpectrum_normalPhase'', ''bootMean''),
                         (''mtcpcaSpectrum_normalPhase'', ''bootVariance''),
                         (''mtcpcaPLV_phaseFlipHalfTrials'', ''bootMean''),
                         (''mtcpcaPLV_phaseFlipHalfTrials'', ''bootVariance''),
                         (''mtcpcaSpectrum_phaseFlipHalfTrials'', ''bootMean''),
                         (''mtcpcaSpectrum_phaseFlipHalfTrials'', ''bootVariance'')].
                \<exists>d xs. result (fst key) = Some d \<and> d (snd key) = Some xs \<and> plvF < length xs"
    unfolding keys using present by blast
  from boot c1 c2 closed show ?thesis by blast
qed

theorem csv_header_and_one_row_per_frequency_witness:
  "fst (cond_body (ex_env (ex_file 3 5000)) ''s1'' 3 ex_world) = Done \<and>
   map_of (files (snd (cond_body (ex_env (ex_file 3 5000)) ''s1'' 3 ex_world)))
       ''out/s1_condition_3.csv'' =
     Some [''Subject Name,Condition,Number of Draws,Trials per Draw,Frequency,'' @
           ''PLV**2: bootstrapped mean,PLV**2: bootstrapped variance,'' @
           ''Spectrum: bootstrapped mean,Spectrum: bootstrapped variance,'' @
           ''Noise floor PLV**2: bootstrapped mean,'' @
           ''Noise floor PLV**2: bootstrapped variance,'' @
           ''Noise floor Spectrum: bootstrapped mean,'' @
           ''Noise floor Spectrum: bootstrapped variance\<newline>'',
           ''s1,3,100,2,70,11,21,31,41,51,61,71,81\<newline>'',
           ''s1,3,100,2,75,12,22,32,42,52,62,72,82\<newline>''] \<and>
   outputFile (snd (cond_body (ex_env (ex_file 3 5000)) ''s1'' 3 ex_world)) =
     Some (''out/s1_condition_3.csv'', True)"
proof -
  let ?E = "ex_env (ex_file 3 5000)"
  let ?w' = "snd (cond_body ?E ''s1'' 3 ex_world)"
  have d: "fst (cond_body ?E ''s1'' 3 ex_world) = Done" by code_simp
  then have h: "cond_body ?E ''s1'' 3 ex_world = (Done, ?w')" by (metis prod.collapse)
  have path: "outputFilename ?E ''s1'' 3 ex_world = ''out/s1_condition_3.csv''" by code_simp
  have par: "params ?w' = ex_params" by code_simp
  from csv_header_and_one_row_per_frequency [OF h] obtain result combinedData g p where
    boot: "bootfunc ?E g combinedData p = (Inr result, params ?w', rng ?w')" and
    content: "map_of (files ?w') (outputFilename ?E ''s1'' 3 ex_world) =
             Some ((''Subject Name,Condition,Number of Draws,Trials per Draw,Frequency,'' @
                    ''PLV**2: bootstrapped mean,PLV**2: bootstrapped variance,'' @
                    ''Spectrum: bootstrapped mean,Spectrum: bootstrapped variance,'' @
                    ''Noise floor PLV**2: bootstrapped mean,'' @
                    ''Noise floor PLV**2: bootstrapped variance,'' @
                    ''Noise floor Spectrum: bootstrapped mean,'' @
                    ''Noise floor Spectrum: bootstrapped variance\<newline>'') #
                   map (\<lambda>plvF.
                         ''s1'' @ '','' @
                         str_int 3 @ '','' @
                         str_int (nDraws (params ?w')) @ '','' @
                         str_int (nPerDraw (params ?w')) @ '','' @
                         format_value ?E (f_axis (params ?w') ! plvF) @ '','' @
                         format_value ?E (the (the (result ''mtcpcaPLV_normalPhase'') ''bootMean'') ! plvF) @ '','' @
                         format_value ?E (the (the (result ''mtcpcaPLV_normalPhase'') ''bootVariance'') ! plvF) @ '','' @
                         format_value ?E (the (the (result ''mtcpcaSpectrum_normalPhase'') ''bootMean'') ! plvF) @ '','' @
                         format_value ?E (the (the (result ''mtcpcaSpectrum_normalPhase'') ''bootVariance'') ! plvF) @ '','' @
                         format_value ?E (the (the (result ''mtcpcaPLV_phaseFlipHalfTrials'') ''bootMean'') ! plvF) @ '','' @
                         format_value ?E (the (the (result ''mtcpcaPLV_phaseFlipHalfTrials'') ''bootVariance'') ! plvF) @ '','' @
                         format_value ?E (the (the (result ''mtcpcaSpectrum_phaseFlipHalfTrials'') ''bootMean'') ! plvF) @ '','' @
                         format_value ?E (the (the (result ''mtcpcaSpectrum_phaseFlipHalfTrials'') ''bootVariance'') ! plvF) @ ''\<newline>'')
                     [0 ..< length (f_axis (params ?w'))])" and
    closed: "outputFile ?w' = Some (outputFilename ?E ''s1'' 3 ex_world, True)"
    by blast
  from boot have res: "result = ex_result" by (simp add: ex_env_def)
  have rows: "map (\<lambda>plvF.
                         ''s1'' @ '','' @
                         str_int 3 @ '','' @
                         str_int (nDraws ex_params) @ '','' @
                         str_int (nPerDraw ex_params) @ '','' @
                         format_value ?E (f_axis ex_params ! plvF) @ '','' @
                         format_value ?E (the (the (ex_result ''mtcpcaPLV_normalPhase'') ''bootMean'') ! plvF) @ '','' @
                         format_value ?E (the (the (ex_result ''mtcpcaPLV_normalPhase'') ''bootVariance'') ! plvF) @ '','' @
                         format_value ?E (the (the (ex_result ''mtcpcaSpectrum_normalPhase'') ''bootMean'') ! plvF) @ '','' @
                         format_value ?E (the (the (ex_result ''mtcpcaSpectrum_normalPhase'') ''bootVariance'') ! plvF) @ '','' @
                         format_value ?E (the (the (ex_result ''mtcpcaPLV_phaseFlipHalfTrials'') ''bootMean'') ! plvF) @ '','' @
                         format_value ?E (the (the (ex_result ''mtcpcaPLV_phaseFlipHalfTrials'') ''bootVariance'') ! plvF) @ '','' @
                         format_value ?E (the (the (ex_result ''mtcpcaSpectrum_phaseFlipHalfTrials'') ''bootMean'') ! plvF) @ '','' @
                         format_value ?E (the (the (ex_result ''mtcpcaSpectrum_phaseFlipHalfTrials'') ''bootVariance'') ! plvF) @ ''\<newline>'')
                     [0 ..< length (f_axis ex_params)] =
      [''s1,3,100,2,70,11,21,31,41,51,61,71,81\<newline>'',
       ''s1,3,100,2,75,12,22,32,42,52,62,72,82\<newline>'']"
    by code_simp
  from d content closed rows show ?thesis by (simp add: path par res)
qed

subsection \<open>Which exceptions the handlers catch\<close>






lemma run_conditions_crashed:
  "cond_body env s c w = (Crashed e, w') \<Longrightarrow> run_conditions env s (c # cs) w = (Some e, w')"
  by simp






subsection \<open>File names\<close>


lemma check_filename_free:
  "\<not> path_exists fs (join inSaveDir inSaveName) \<Longrightarrow>
     check_filename fs inSaveName inSaveDir = join inSaveDir inSaveName"
  by (simp add: check_filename_def check_loop_free)


















subsection \<open>The condition in the messages and in the file name\<close>

text \<open>
  \<^verbatim>\<open>str\<close> is injective on the integers and its digits contain no blank, so the condition
  can be read back from a skip message (it is the last field before the final
  punctuation) and from the base name of the output file.
\<close>

lemma digit_char_inj:
  assumes "a < 10" "b < 10" "digit_char a = digit_char b"
  shows "a = b"
proof -
  have "distinct ''0123456789''" by simp
  moreover have "a < length ''0123456789''" "b < length ''0123456789''" using assms by simp_all
  ultimately show ?thesis using assms(3) unfolding digit_char_def
    by (simp only: nth_eq_iff_index_eq)
qed

lemma str_nat_inj: "str_nat n = str_nat m \<Longrightarrow> n = m"
proof (induction n arbitrary: m rule: str_nat.induct)
  case (1 n)
  show ?case
  proof (cases "n < 10")
    case True
    then have n: "str_nat n = [digit_char n]" by (subst str_nat.simps) simp
    show ?thesis
    proof (cases "m < 10")
      case m: True
      then have "str_nat m = [digit_char m]" by (subst str_nat.simps) simp
      with n "1.prems" True m show ?thesis by (simp add: digit_char_inj)
    next
      case False
      then have "str_nat m = str_nat (m div 10) @ [digit_char (m mod 10)]"
        by (subst str_nat.simps) simp
      with n "1.prems" str_nat_nonempty [of "m div 10"] show ?thesis by simp
    qed
  next
    case False
    then have n: "str_nat n = str_nat (n div 10) @ [digit_char (n mod 10)]"
      by (subst str_nat.simps) simp
    show ?thesis
    proof (cases "m < 10")
      case True
      then have "str_nat m = [digit_char m]" by (subst str_nat.simps) simp
      with n "1.prems" str_nat_nonempty [of "n div 10"] show ?thesis by simp
    next
      case m: False
      then have "str_nat m = str_nat (m div 10) @ [digit_char (m mod 10)]"
        by (subst str_nat.simps) simp
      with n "1.prems" have eq: "str_nat (n div 10) = str_nat (m div 10)"
        and d: "digit_char (n mod 10) = digit_char (m mod 10)" by simp_all
      from "1.IH" [OF False eq] have "n div 10 = m div 10" .
      moreover have "n mod 10 = m mod 10" using d by (intro digit_char_inj) simp_all
      ultimately show ?thesis by (metis div_mult_mod_eq)
    qed
  qed
qed

lemma str_int_inj: "str_int i = str_int j \<Longrightarrow> i = j"
proof -
  assume eq: "str_int i = str_int j"
  have minus: "CHR ''-'' # xs \<noteq> str_nat n" for xs n
  proof
    assume "CHR ''-'' # xs = str_nat n"
    then have "CHR ''-'' \<in> set (str_nat n)" by (metis list.set_intros(1))
    moreover have "CHR ''-'' \<notin> set (str_nat n)" by (rule str_nat_chars) simp
    ultimately show False by simp
  qed
  show ?thesis
  proof (cases "i < 0")
    case True
    show ?thesis
    proof (cases "j < 0")
      case j: True
      with True eq have "str_nat (nat (- i)) = str_nat (nat (- j))" by (simp add: str_int_def)
      then have "nat (- i) = nat (- j)" by (rule str_nat_inj)
      with True j show ?thesis by simp
    next
      case False
      with True eq minus show ?thesis by (simp add: str_int_def)
    qed
  next
    case False
    show ?thesis
    proof (cases "j < 0")
      case True
      with False eq minus [of "str_nat (nat (- j))" "nat i"] show ?thesis
        by (simp add: str_int_def)
    next
      case j: False
      with False eq have "str_nat (nat i) = str_nat (nat j)" by (simp add: str_int_def)
      then have "nat i = nat j" by (rule str_nat_inj)
      with False j show ?thesis by simp
    qed
  qed
qed

lemma str_int_no_space: "CHR '' '' \<notin> set (str_int i)"
proof -
  have "CHR '' '' \<notin> set (str_nat n)" for n by (rule str_nat_chars) simp
  then show ?thesis by (simp add: str_int_def)
qed

lemma last_field:
  assumes "x @ sp # d1 = y @ sp # d2" and "sp \<notin> set d1" and "sp \<notin> set d2"
  shows "d1 = d2"
proof -
  have "takeWhile (\<lambda>ch. ch \<noteq> sp) (rev (x @ sp # d1)) = rev d1"
    using assms(2) by (auto simp: takeWhile_tail takeWhile_eq_all_conv)
  moreover have "takeWhile (\<lambda>ch. ch \<noteq> sp) (rev (y @ sp # d2)) = rev d2"
    using assms(3) by (auto simp: takeWhile_tail takeWhile_eq_all_conv)
  ultimately have "rev d1 = rev d2" using assms(1) by simp
  then show ?thesis by simp
qed

lemma ioerror_message_inj:
  assumes "ioerror_message name1 c1 = ioerror_message name2 c2"
  shows "c1 = c2"
proof -
  from assms have
    "(''\<newline>Cannot find file: '' @ name1 @ '', skipping,condition'') @ CHR '' '' # str_int c1 =
     (''\<newline>Cannot find file: '' @ name2 @ '', skipping,condition'') @ CHR '' '' # str_int c2"
    by (simp add: ioerror_message_def)
  then have "str_int c1 = str_int c2"
    by (rule last_field) (rule str_int_no_space)+
  then show ?thesis by (rule str_int_inj)
qed

lemma assertion_message_inj:
  assumes "assertion_message n1 name1 c1 = assertion_message n2 name2 c2"
  shows "c1 = c2"
proof -
  from assms have
    "(''\<newline>Only '' @ str_int (int n1) @ '' trials detected in '' @ name1 @
        '', skipping condition'') @ CHR '' '' # str_int c1 =
     (''\<newline>Only '' @ str_int (int n2) @ '' trials detected in '' @ name2 @
        '', skipping condition'') @ CHR '' '' # str_int c2"
    by (simp add: assertion_message_def)
  then have "str_int c1 = str_int c2"
    by (rule last_field) (rule str_int_no_space)+
  then show ?thesis by (rule str_int_inj)
qed

lemma messages_differ: "ioerror_message name1 c1 \<noteq> assertion_message n name2 c2"
proof
  assume "ioerror_message name1 c1 = assertion_message n name2 c2"
  then have
    "(''\<newline>Cannot find file: '' @ name1 @ '', skipping,condition '' @ str_int c1) @ '' \<newline>'' =
     (''\<newline>Only '' @ str_int (int n) @ '' trials detected in '' @ name2 @
        '', skipping condition '' @ str_int c2 @ ''..'') @ ''.\<newline>''"
    by (simp add: ioerror_message_def assertion_message_def)
  then have "rev ((''\<newline>Cannot find file: '' @ name1 @ '', skipping,condition '' @ str_int c1) @
        '' \<newline>'') =
     rev ((''\<newline>Only '' @ str_int (int n) @ '' trials detected in '' @ name2 @
        '', skipping condition '' @ str_int c2 @ ''..'') @ ''.\<newline>'')"
    by (rule arg_cong)
  then show False by (simp del: append_assoc)
qed

lemma try_block_outputFile:
  assumes "try_block env s c path w = (Some e, w')"
  shows "outputFile w' = outputFile w"
  using assms unfolding try_block_def
  by (auto split: prod.splits sum.splits option.splits simp: file_close_def
      dest!: load_all_frame call_bootfunc_frame file_write_frame write_rows_frame)

lemma cond_body_Skipped:
  assumes "cond_body env s c w = (Skipped, w')"
  shows "\<exists>w1 w2 l. open_output env s c w = (None, w1) \<and> var_l w2 = Some l \<and>
           (try_block env s c (outputFilename env s c w) w1 = (Some IOError, w2) \<and>
            w' = py_print (ioerror_message (loadName s c l) c) w2 \<or>
            (\<exists>mat. try_block env s c (outputFilename env s c w) w1 = (Some AssertionError, w2) \<and>
               var_mat w2 = Some mat \<and>
               w' = py_print (assertion_message (length mat) (loadName s c l) c) w2))"
  using assms unfolding cond_body_def handle_def
  by (auto split: prod.splits option.splits exn.splits)

lemma skip_report:
  assumes "cond_body env s c w = (Skipped, w')"
  shows "(\<exists>l. last (stdout w') = ioerror_message (loadName s c l) c \<or>
              (\<exists>n. last (stdout w') = assertion_message n (loadName s c l) c)) \<and>
         outputFile w' = Some (check_filename (files w) (saveName s c) (saveDir env), False)"
proof -
  from cond_body_Skipped [OF assms] obtain w1 w2 l where
    op: "open_output env s c w = (None, w1)" and
    alt: "try_block env s c (outputFilename env s c w) w1 = (Some IOError, w2) \<and>
            w' = py_print (ioerror_message (loadName s c l) c) w2 \<or>
          (\<exists>mat. try_block env s c (outputFilename env s c w) w1 = (Some AssertionError, w2) \<and>
             var_mat w2 = Some mat \<and>
             w' = py_print (assertion_message (length mat) (loadName s c l) c) w2)"
    by blast
  note f1 = open_output_frame(2) [OF op]
  from alt show ?thesis
  proof
    assume a: "try_block env s c (outputFilename env s c w) w1 = (Some IOError, w2) \<and>
      w' = py_print (ioerror_message (loadName s c l) c) w2"
    with try_block_outputFile [of env s c _ w1 IOError w2] f1 show ?thesis
      by (auto simp: outputFilename_def)
  next
    assume "\<exists>mat. try_block env s c (outputFilename env s c w) w1 = (Some AssertionError, w2) \<and>
      var_mat w2 = Some mat \<and>
      w' = py_print (assertion_message (length mat) (loadName s c l) c) w2"
    then obtain mat where
      a: "try_block env s c (outputFilename env s c w) w1 = (Some AssertionError, w2)"
      and "var_mat w2 = Some mat"
      and w': "w' = py_print (assertion_message (length mat) (loadName s c l) c) w2" by blast
    from try_block_outputFile [OF a] f1 w' show ?thesis
      by (auto simp: outputFilename_def)
  qed
qed

lemma reported_condition:
  assumes "cond_body env s c w = (Skipped, w')"
    and "last (stdout w') = ioerror_message name c' \<or> last (stdout w') = assertion_message n name c'"
  shows "c' = c"
proof -
  from skip_report [OF assms(1)] obtain l where
    "last (stdout w') = ioerror_message (loadName s c l) c \<or>
     (\<exists>k. last (stdout w') = assertion_message k (loadName s c l) c)" by blast
  with assms(2) show ?thesis
    using ioerror_message_inj assertion_message_inj messages_differ
    by (metis (no_types))
qed

lemma saveName_inj: "saveName s c = saveName s c' \<Longrightarrow> c = c'"
  by (simp add: saveName_def str_int_inj)

text \<open>
  Claim C8, as the script has it. The script has no counter of its own for the
  condition: the variable \<^verbatim>\<open>c\<close> of \<^verbatim>\<open>for c in range(1, 4)\<close> is what both handlers format
  into their message and what line 82 formats into the base name of the output file
  (the variable \<^verbatim>\<open>counter\<close> is local to the filename resolver). So whenever a condition
  is skipped, the last line printed is one of the two skip messages with the loop's
  \<open>c\<close>, the output file is the one resolved from \<^verbatim>\<open>{s}_condition_{c}.csv\<close>, and the
  message can be read as reporting no other condition.
\<close>

theorem skip_message_reports_loop_condition:
  assumes "cond_body env s c w = (Skipped, w')"
  shows "(\<exists>l. last (stdout w') =
                ''\<newline>Cannot find file: '' @ loadName s c l @ '', skipping,condition '' @
                str_int c @ '' \<newline>'' \<or>
              (\<exists>n. last (stdout w') =
                ''\<newline>Only '' @ str_int (int n) @ '' trials detected in '' @ loadName s c l @
                '', skipping condition '' @ str_int c @ ''...\<newline>'')) \<and>
         outputFile w' =
           Some (check_filename (files w) (s @ ''_condition_'' @ str_int c @ ''.csv'')
                   (saveDir env), False) \<and>
         (\<forall>name n c'. last (stdout w') = ioerror_message name c' \<or>
                      last (stdout w') = assertion_message n name c' \<longrightarrow> c' = c) \<and>
         (\<forall>c'. saveName s c' = saveName s c \<longrightarrow> c' = c)"
proof -
  from skip_report [OF assms]
  have "(\<exists>l. last (stdout w') =
                ''\<newline>Cannot find file: '' @ loadName s c l @ '', skipping,condition '' @
                str_int c @ '' \<newline>'' \<or>
              (\<exists>n. last (stdout w') =
                ''\<newline>Only '' @ str_int (int n) @ '' trials detected in '' @ loadName s c l @
                '', skipping condition '' @ str_int c @ ''...\<newline>''))"
    and "outputFile w' =
           Some (check_filename (files w) (s @ ''_condition_'' @ str_int c @ ''.csv'')
                   (saveDir env), False)"
    by (simp_all add: ioerror_message_def assertion_message_def saveName_def)
  moreover have "c' = c"
    if "last (stdout w') = ioerror_message name c' \<or>
        last (stdout w') = assertion_message n name c'" for name n c'
    using reported_condition [OF assms that] .
  moreover have "c' = c" if "saveName s c' = saveName s c" for c'
    using that by (rule saveName_inj)
  ultimately show ?thesis by blast
qed

theorem skip_message_reports_loop_condition_witness:
  "fst (cond_body (ex_env ex_missing) ''s1'' 2 ex_world) = Skipped \<and>
   last (stdout (snd (cond_body (ex_env ex_missing) ''s1'' 2 ex_world))) =
     ''\<newline>Cannot find file: s1_S_2.mat, skipping,condition 2 \<newline>'' \<and>
   outputFile (snd (cond_body (ex_env ex_missing) ''s1'' 2 ex_world)) =
     Some (''out/s1_condition_2.csv'', False)"
proof -
  let ?E = "ex_env ex_missing"
  let ?w' = "snd (cond_body ?E ''s1'' 2 ex_world)"
  have d: "fst (cond_body ?E ''s1'' 2 ex_world) = Skipped" by code_simp
  then have h: "cond_body ?E ''s1'' 2 ex_world = (Skipped, ?w')" by (metis prod.collapse)
  have m: "last (stdout ?w') =
      ''\<newline>Cannot find file: s1_S_2.mat, skipping,condition 2 \<newline>''" by code_simp
  have e: "check_filename (files ex_world) (''s1'' @ ''_condition_'' @ str_int 2 @ ''.csv'')
      (saveDir ?E) = ''out/s1_condition_2.csv''" by code_simp
  from skip_message_reports_loop_condition [OF h, THEN conjunct2, THEN conjunct1] d m e
  show ?thesis by simp
qed

text \<open>
  Claim C8 as stated fails: no run skips a condition with a message that reports a
  condition other than the one in the name of the output file.
\<close>

theorem no_skip_message_reports_another_condition:
  "\<not> (\<exists>(env :: ('a, 'v, 'g) env) s c w w' name n c'.
        cond_body env s c w = (Skipped, w') \<and> c' \<noteq> c \<and>
        outputFile w' = Some (check_filename (files w) (saveName s c) (saveDir env), False) \<and>
        (last (stdout w') = ioerror_message name c' \<or>
         last (stdout w') = assertion_message n name c'))"
  using reported_condition by blast

end
